theory Spec2Isabelle
  imports Main
begin

section \<open>Exception classes and exception values\<close>

text \<open>
  A class is an object with an identity. The classes that the module defines or uses
  statically are constructors of \<open>pyclass\<close>; a class made at run time by
  \<^verbatim>\<open>type(name, (ErrorReturnCode,), {})\<close> is \<open>C_Dynamic n\<close>, the \<open>n\<close>-th class so
  created. Python fixes the method resolution order of a class when the class is
  created; \<^verbatim>\<open>issubclass\<close> and \<^verbatim>\<open>except\<close> look the class up in that order.
\<close>

datatype pyclass =
    C_object
  | C_BaseException
  | C_Exception
  | C_StandardError
  | C_TypeError
  | C_ValueError
  | C_AttributeError
  | C_EnvironmentError
  | C_OSError
  | C_RuntimeError
  | C_ErrorReturnCode
  | C_Dynamic nat

record class_obj =
  cls_name :: string
  cls_base :: pyclass
  cls_mro :: "pyclass list"

text \<open>
  An instance of \<^verbatim>\<open>ErrorReturnCode\<close> (or of a subclass): its class, the three
  attributes that \<^verbatim>\<open>__init__\<close> stores, and the message given to \<^verbatim>\<open>Exception\<close>.
  \<open>None\<close> is Python's \<^verbatim>\<open>None\<close>.
\<close>

record exc_obj =
  exc_class :: pyclass
  full_cmd :: "string option"
  exc_stdout :: "string option"
  exc_stderr :: "string option"
  exc_msg :: string

datatype error =
    TypeError
  | ValueError string
  | AttributeError
  | OSError
  | RuntimeError
  | ErrorReturnCode exc_obj

section \<open>Python strings and values used by pbs\<close>

text \<open>
  Byte strings of Python 2 are \<open>string\<close> (lists of 8-bit characters). The helpers below
  are the library operations that \<^verbatim>\<open>pbs.py\<close> calls: \<^verbatim>\<open>sep.join(xs)\<close>,
  \<^verbatim>\<open>s.replace("_", "-")\<close>, \<^verbatim>\<open>"%d" % n\<close>, \<^verbatim>\<open>repr\<close> and \<^verbatim>\<open>str\<close>.
\<close>

fun join :: "string \<Rightarrow> string list \<Rightarrow> string" where
  "join sep [] = []"
| "join sep [x] = x"
| "join sep (x # y # ys) = x @ sep @ join sep (y # ys)"

definition replace_char :: "char \<Rightarrow> char \<Rightarrow> string \<Rightarrow> string" where
  "replace_char a b s = map (\<lambda>c. if c = a then b else c) s"

definition digit_char :: "nat \<Rightarrow> char" where
  "digit_char d = char_of (of_char CHR ''0'' + d :: nat)"

fun str_of_nat :: "nat \<Rightarrow> string" where
  "str_of_nat n = (if n < 10 then [digit_char n] else str_of_nat (n div 10) @ [digit_char (n mod 10)])"

declare str_of_nat.simps [simp del]

definition str_of_int :: "int \<Rightarrow> string" where
  "str_of_int i = (if i < 0 then CHR ''-'' # str_of_nat (nat (- i)) else str_of_nat (nat i))"

definition hex_char :: "nat \<Rightarrow> char" where
  "hex_char d = (if d < 10 then digit_char d else char_of (of_char CHR ''a'' + (d - 10) :: nat))"

text \<open>
  \<^verbatim>\<open>repr\<close> of a Python 2 byte string: single quotes unless the string holds a single
  quote and no double quote; the quote and the backslash are escaped, tab, newline and
  carriage return are written symbolically, other bytes outside the printable ASCII
  range as \<^verbatim>\<open>\xHH\<close>.
\<close>

definition repr_quote :: "string \<Rightarrow> char" where
  "repr_quote s = (if CHR 0x27 \<in> set s \<and> CHR 0x22 \<notin> set s then CHR 0x22 else CHR 0x27)"

definition repr_char :: "char \<Rightarrow> char \<Rightarrow> string" where
  "repr_char q c =
     (if c = q \<or> c = CHR 0x5C then [CHR 0x5C, c]
      else if c = CHR 0x09 then [CHR 0x5C, CHR ''t'']
      else if c = CHR 0x0A then [CHR 0x5C, CHR ''n'']
      else if c = CHR 0x0D then [CHR 0x5C, CHR ''r'']
      else if (of_char c :: nat) < 32 \<or> (of_char c :: nat) \<ge> 127
        then [CHR 0x5C, CHR ''x'', hex_char ((of_char c :: nat) div 16), hex_char ((of_char c :: nat) mod 16)]
      else [c])"

definition repr_str :: "string \<Rightarrow> string" where
  "repr_str s = (let q = repr_quote s in [q] @ concat (map (repr_char q) s) @ [q])"

text \<open>
  The Python values that reach the argument compiler and the call options: \<^verbatim>\<open>None\<close>,
  booleans, machine integers, byte strings, lists and tuples of values, and opaque
  objects (functions, file objects), which carry the text that \<^verbatim>\<open>repr\<close> prints
  for them.
\<close>

datatype pyval =
    PNone
  | PBool bool
  | PInt int
  | PStr string
  | PList "pyval list"
  | PTuple "pyval list"
  | PCallable string
  | PFile string

fun py_repr :: "pyval \<Rightarrow> string" where
  "py_repr PNone = ''None''"
| "py_repr (PBool b) = (if b then ''True'' else ''False'')"
| "py_repr (PInt i) = str_of_int i"
| "py_repr (PStr s) = repr_str s"
| "py_repr (PList xs) = ''['' @ join '', '' (map py_repr xs) @ '']''"
| "py_repr (PTuple xs) =
     (case xs of [x] \<Rightarrow> ''('' @ py_repr x @ '',)''
      | _ \<Rightarrow> ''('' @ join '', '' (map py_repr xs) @ '')'')"
| "py_repr (PCallable r) = r"
| "py_repr (PFile r) = r"

fun py_str :: "pyval \<Rightarrow> string" where
  "py_str (PStr s) = s"
| "py_str v = py_repr v"

fun truthy :: "pyval \<Rightarrow> bool" where
  "truthy PNone = False"
| "truthy (PBool b) = b"
| "truthy (PInt i) = (i \<noteq> 0)"
| "truthy (PStr s) = (s \<noteq> [])"
| "truthy (PList xs) = (xs \<noteq> [])"
| "truthy (PTuple xs) = (xs \<noteq> [])"
| "truthy (PCallable r) = True"
| "truthy (PFile r) = True"

section \<open>Shell word splitting: \<^verbatim>\<open>shlex.split\<close>\<close>

text \<open>
  \<^verbatim>\<open>_compile_args\<close> ends with \<^verbatim>\<open>shlex.split(" ".join(processed_args))\<close>. The
  function is the standard library's tokenizer in POSIX mode with
  \<^verbatim>\<open>whitespace_split = True\<close> and no comment characters. Its \<^verbatim>\<open>read_token\<close> is a
  state machine over the states \<^verbatim>\<open>' '\<close> (between words), \<^verbatim>\<open>'a'\<close> (inside a word),
  a quote character (inside quotes) and the escape character; \<open>lex\<close> is that machine,
  run over the whole input, emitting a token at each \<^verbatim>\<open>break\<close>. With
  \<^verbatim>\<open>whitespace_split\<close> the branch for word characters and the branch for any other
  character do the same, so they are one branch here.
\<close>

datatype shstate = SSpace | SWord | SQuote char | SEscape

definition sh_whitespace :: "char set" where
  "sh_whitespace = {CHR 0x20, CHR 0x09, CHR 0x0D, CHR 0x0A}"

definition sh_quotes :: "char set" where
  "sh_quotes = {CHR 0x27, CHR 0x22}"

definition sh_escape :: char where
  "sh_escape = CHR 0x5C"

definition sh_escapedquotes :: "char set" where
  "sh_escapedquotes = {CHR 0x22}"

fun is_quote_state :: "shstate \<Rightarrow> bool" where
  "is_quote_state (SQuote q) = True"
| "is_quote_state s = False"

fun quote_of :: "shstate \<Rightarrow> char" where
  "quote_of (SQuote q) = q"
| "quote_of s = CHR 0x20"

text \<open>
  \<open>lex st tok quoted esc input\<close>: \<open>st\<close> is \<^verbatim>\<open>self.state\<close>, \<open>tok\<close> is
  \<^verbatim>\<open>self.token\<close>, \<open>quoted\<close> and \<open>esc\<close> are the locals \<^verbatim>\<open>quoted\<close> and
  \<^verbatim>\<open>escapedstate\<close> of \<^verbatim>\<open>read_token\<close>, which every new token resets.
\<close>

fun lex :: "shstate \<Rightarrow> string \<Rightarrow> bool \<Rightarrow> shstate \<Rightarrow> string \<Rightarrow> error + string list" where
  "lex SSpace tok quoted esc [] = Inr []"
| "lex SWord tok quoted esc [] = (if tok \<noteq> [] \<or> quoted then Inr [tok] else Inr [])"
| "lex (SQuote q) tok quoted esc [] = Inl (ValueError ''No closing quotation'')"
| "lex SEscape tok quoted esc [] = Inl (ValueError ''No escaped character'')"
| "lex SSpace tok quoted esc (c # cs) =
     (if c \<in> sh_whitespace then
        (if tok \<noteq> [] \<or> quoted
         then (case lex SSpace [] False SSpace cs of Inl e \<Rightarrow> Inl e | Inr ts \<Rightarrow> Inr (tok # ts))
         else lex SSpace tok quoted esc cs)
      else if c = sh_escape then lex SEscape tok quoted SWord cs
      else if c \<in> sh_quotes then lex (SQuote c) tok quoted esc cs
      else lex SWord [c] quoted esc cs)"
| "lex (SQuote q) tok quoted esc (c # cs) =
     (if c = q then lex SWord tok True esc cs
      else if c = sh_escape \<and> q \<in> sh_escapedquotes then lex SEscape tok True (SQuote q) cs
      else lex (SQuote q) (tok @ [c]) True esc cs)"
| "lex SEscape tok quoted esc (c # cs) =
     (let tok' = (if is_quote_state esc \<and> c \<noteq> sh_escape \<and> c \<noteq> quote_of esc
                  then tok @ [sh_escape] else tok)
      in lex esc (tok' @ [c]) quoted esc cs)"
| "lex SWord tok quoted esc (c # cs) =
     (if c \<in> sh_whitespace then
        (if tok \<noteq> [] \<or> quoted
         then (case lex SSpace [] False SSpace cs of Inl e \<Rightarrow> Inl e | Inr ts \<Rightarrow> Inr (tok # ts))
         else lex SSpace tok quoted esc cs)
      else if c \<in> sh_quotes then lex (SQuote c) tok quoted esc cs
      else if c = sh_escape then lex SEscape tok quoted SWord cs
      else lex SWord (tok @ [c]) quoted esc cs)"

definition shlex_split :: "string \<Rightarrow> error + string list" where
  "shlex_split s = lex SSpace [] False SSpace s"

section \<open>The argument compiler: \<^verbatim>\<open>Command._compile_args\<close>\<close>

text \<open>
  \<open>kwargs\<close> is the list that \<^verbatim>\<open>kwargs.items()\<close> returns, in its order.
  \<^verbatim>\<open>v is True\<close> holds for the boolean \<^verbatim>\<open>True\<close> only.
\<close>

fun positional :: "pyval \<Rightarrow> string list" where
  "positional (PList xs) = map py_str xs"
| "positional (PTuple xs) = map py_str xs"
| "positional v = [py_str v]"

definition keyword :: "string \<times> pyval \<Rightarrow> string" where
  "keyword kv =
     (let k = fst kv; v = snd kv in
      if length k = 1 then
        (if v = PBool True then ''-'' @ k else ''-'' @ k @ '' '' @ py_repr v)
      else
        (let k' = replace_char CHR ''_'' CHR ''-'' k in
         if v = PBool True then ''--'' @ k' else ''--'' @ k' @ ''='' @ py_repr v))"

definition compile_args :: "pyval list \<Rightarrow> (string \<times> pyval) list \<Rightarrow> error + string list" where
  "compile_args args kwargs =
     shlex_split (join '' '' (concat (map positional args) @ map keyword kwargs))"


section \<open>Module state: the class store, the exception cache, the prefix stack\<close>

text \<open>
  \<^verbatim>\<open>rc_exc_cache\<close> is a dictionary whose keys are whatever the code stores or looks
  up: \<^verbatim>\<open>get_rc_exc\<close> looks up the integer \<^verbatim>\<open>rc\<close> and stores under the string
  \<^verbatim>\<open>name\<close>. An integer key and a string key are never equal.
\<close>

datatype key = KInt int | KStr string

text \<open>
  The special keyword arguments of a call, \<^verbatim>\<open>Command.call_args\<close>, with the defaults
  of the class attribute.
\<close>

record call_args =
  ca_fg :: pyval
  ca_bg :: pyval
  ca_with :: pyval
  ca_out :: pyval
  ca_err :: pyval
  ca_err_to_out :: pyval
  ca_bufsize :: pyval

definition default_call_args :: call_args where
  "default_call_args =
     \<lparr>ca_fg = PBool False, ca_bg = PBool False, ca_with = PBool False, ca_out = PNone,
      ca_err = PNone, ca_err_to_out = PNone, ca_bufsize = PInt 1\<rparr>"

text \<open>
  A \<^verbatim>\<open>Command\<close> object. \<^verbatim>\<open>_partial_call_args\<close> is the empty dictionary
  (\<open>None\<close>) after \<^verbatim>\<open>__init__\<close> and a full set of call arguments after
  \<^verbatim>\<open>bake\<close>. Command objects live in the store \<open>commands\<close> of the module state and
  are referred to by their index.
\<close>

record command =
  path :: string
  partial :: bool
  partial_baked_args :: "string list"
  partial_call_args :: "call_args option"

record world =
  classes :: "class_obj list"
  rc_exc_cache :: "key \<rightharpoonup> pyclass"
  prepend_stack :: "string list list"
  commands :: "command list"

definition initial_world :: world where
  "initial_world = \<lparr>classes = [], rc_exc_cache = Map.empty, prepend_stack = [], commands = []\<rparr>"

fun mro :: "world \<Rightarrow> pyclass \<Rightarrow> pyclass list" where
  "mro w C_object = [C_object]"
| "mro w C_BaseException = [C_BaseException, C_object]"
| "mro w C_Exception = [C_Exception, C_BaseException, C_object]"
| "mro w C_StandardError = [C_StandardError, C_Exception, C_BaseException, C_object]"
| "mro w C_TypeError = [C_TypeError, C_StandardError, C_Exception, C_BaseException, C_object]"
| "mro w C_ValueError = [C_ValueError, C_StandardError, C_Exception, C_BaseException, C_object]"
| "mro w C_AttributeError =
     [C_AttributeError, C_StandardError, C_Exception, C_BaseException, C_object]"
| "mro w C_EnvironmentError =
     [C_EnvironmentError, C_StandardError, C_Exception, C_BaseException, C_object]"
| "mro w C_OSError =
     [C_OSError, C_EnvironmentError, C_StandardError, C_Exception, C_BaseException, C_object]"
| "mro w C_RuntimeError =
     [C_RuntimeError, C_StandardError, C_Exception, C_BaseException, C_object]"
| "mro w C_ErrorReturnCode = [C_ErrorReturnCode, C_Exception, C_BaseException, C_object]"
| "mro w (C_Dynamic n) = (if n < length (classes w) then cls_mro (classes w ! n) else [])"

definition issubclass :: "world \<Rightarrow> pyclass \<Rightarrow> pyclass \<Rightarrow> bool" where
  "issubclass w c d = (d \<in> set (mro w c))"

fun class_of :: "error \<Rightarrow> pyclass" where
  "class_of TypeError = C_TypeError"
| "class_of (ValueError m) = C_ValueError"
| "class_of AttributeError = C_AttributeError"
| "class_of OSError = C_OSError"
| "class_of RuntimeError = C_RuntimeError"
| "class_of (ErrorReturnCode x) = exc_class x"

text \<open>\<^verbatim>\<open>except handler:\<close> catches a raised exception when its class is a subclass.\<close>

definition catches :: "world \<Rightarrow> pyclass \<Rightarrow> error \<Rightarrow> bool" where
  "catches w handler e = issubclass w (class_of e) handler"

fun class_name :: "world \<Rightarrow> pyclass \<Rightarrow> string" where
  "class_name w (C_Dynamic n) = (if n < length (classes w) then cls_name (classes w ! n) else [])"
| "class_name w C_ErrorReturnCode = ''ErrorReturnCode''"
| "class_name w C_object = ''object''"
| "class_name w C_BaseException = ''BaseException''"
| "class_name w C_Exception = ''Exception''"
| "class_name w C_StandardError = ''StandardError''"
| "class_name w C_TypeError = ''TypeError''"
| "class_name w C_ValueError = ''ValueError''"
| "class_name w C_AttributeError = ''AttributeError''"
| "class_name w C_EnvironmentError = ''EnvironmentError''"
| "class_name w C_OSError = ''OSError''"
| "class_name w C_RuntimeError = ''RuntimeError''"

text \<open>\<^verbatim>\<open>type(name, (base,), {})\<close>: a new class object, distinct from every earlier one.\<close>

definition type_new :: "string \<Rightarrow> pyclass \<Rightarrow> world \<Rightarrow> pyclass \<times> world" where
  "type_new name base w =
     (let c = C_Dynamic (length (classes w)) in
      (c, w\<lparr>classes := classes w @ [\<lparr>cls_name = name, cls_base = base, cls_mro = c # mro w base\<rparr>]\<rparr>))"

text \<open>
  \<^verbatim>\<open>
  def get_rc_exc(rc):
      try: return rc_exc_cache[rc]
      except KeyError: pass
      name = "ErrorReturnCode_%d" % rc
      exc = type(name, (ErrorReturnCode,), {})
      rc_exc_cache[name] = exc
      return exc
  \<close>
\<close>

definition get_rc_exc :: "int \<Rightarrow> world \<Rightarrow> pyclass \<times> world" where
  "get_rc_exc rc w =
     (case rc_exc_cache w (KInt rc) of
        Some c \<Rightarrow> (c, w)
      | None \<Rightarrow>
          (let name = ''ErrorReturnCode_'' @ str_of_int rc;
               (exc, w') = type_new name C_ErrorReturnCode w
           in (exc, w'\<lparr>rc_exc_cache := (rc_exc_cache w')(KStr name \<mapsto> exc)\<rparr>)))"

text \<open>
  The exit code that a class name stands for, as \<^verbatim>\<open>Environment.__missing__\<close> reads
  it: \<^verbatim>\<open>rc_exc_regex = re.compile("ErrorReturnCode_(\d+)")\<close>, \<^verbatim>\<open>m = rc_exc_regex.match(k)\<close>,
  \<^verbatim>\<open>int(m.group(1))\<close>. The match is anchored at the start of the name and the group is
  the longest run of decimal digits there.
\<close>

definition is_digit :: "char \<Rightarrow> bool" where
  "is_digit c = ((of_char CHR ''0'' :: nat) \<le> of_char c \<and> (of_char c :: nat) \<le> of_char CHR ''9'')"

definition digit_val :: "char \<Rightarrow> nat" where
  "digit_val c = of_char c - of_char CHR ''0''"

definition nat_of_digits :: "string \<Rightarrow> nat" where
  "nat_of_digits ds = foldl (\<lambda>a c. 10 * a + digit_val c) 0 ds"

definition rc_of_name :: "string \<Rightarrow> int option" where
  "rc_of_name k =
     (let pre = ''ErrorReturnCode_'' in
      if take (length pre) k = pre \<and> takeWhile is_digit (drop (length pre) k) \<noteq> []
      then Some (int (nat_of_digits (takeWhile is_digit (drop (length pre) k))))
      else None)"

section \<open>\<^verbatim>\<open>ErrorReturnCode.__init__\<close>\<close>

definition truncate_cap :: nat where
  "truncate_cap = 750"

text \<open>
  The preview of one stream in the message: \<^verbatim>\<open>"<redirected>"\<close> for \<^verbatim>\<open>None\<close>, else
  the first \<^verbatim>\<open>truncate_cap\<close> bytes, followed by a note when bytes were cut.
\<close>

definition preview :: "string \<Rightarrow> string option \<Rightarrow> string" where
  "preview attr s =
     (case s of
        None \<Rightarrow> ''<redirected>''
      | Some t \<Rightarrow>
          (let tt = take truncate_cap t; delta = length t - length tt in
           if delta \<noteq> 0
           then tt @ ''... ('' @ str_of_nat delta @ '' more, please see e.'' @ attr @ '')''
           else tt))"

definition repr_opt :: "string option \<Rightarrow> string" where
  "repr_opt s = (case s of None \<Rightarrow> ''None'' | Some t \<Rightarrow> repr_str t)"

definition error_return_code_init ::
  "pyclass \<Rightarrow> string option \<Rightarrow> string option \<Rightarrow> string option \<Rightarrow> exc_obj" where
  "error_return_code_init cls cmd out err =
     \<lparr>exc_class = cls, full_cmd = cmd, exc_stdout = out, exc_stderr = err,
      exc_msg = [CHR 0x0A, CHR 0x0A] @ ''  RAN: '' @ repr_opt cmd @ [CHR 0x0A, CHR 0x0A]
                @ ''  STDOUT:'' @ [CHR 0x0A] @ preview ''stdout'' out @ [CHR 0x0A, CHR 0x0A]
                @ ''  STDERR:'' @ [CHR 0x0A] @ preview ''stderr'' err\<rparr>"

text \<open>
  Calling an exception class with positional arguments: \<^verbatim>\<open>__init__(self, full_cmd,
  stdout, stderr)\<close> takes exactly three, and Python raises \<^verbatim>\<open>TypeError\<close> for any other
  number before the body runs.
\<close>

definition instantiate :: "pyclass \<Rightarrow> string option list \<Rightarrow> error + exc_obj" where
  "instantiate cls args =
     (case args of
        [cmd, out, err] \<Rightarrow> Inr (error_return_code_init cls cmd out err)
      | _ \<Rightarrow> Inl TypeError)"


section \<open>Processes\<close>

text \<open>
  A \<^verbatim>\<open>subprocess.Popen\<close> object. What the program prints and the status that
  \<^verbatim>\<open>Popen.wait()\<close> reports for it (the exit code, or the negated signal number when a
  signal ended it) are fields of the record: they are what the operating system
  produced in the run that is described. \<^verbatim>\<open>returncode\<close> is \<^verbatim>\<open>None\<close> until the
  process has been waited for. \<^verbatim>\<open>communicate\<close> returns \<^verbatim>\<open>None\<close> for a stream that
  is not a pipe.
\<close>

datatype stdin_src = StdinInherit | StdinPipe | StdinUpstream "string list"

datatype stdout_dst = OutInherit | OutPipe | OutFileObj string | OutNewFile string | OutToStdout

record process =
  p_argv :: "string list"
  p_stdin :: stdin_src
  p_stdout :: stdout_dst
  p_stderr :: stdout_dst
  p_out :: string
  p_err :: string
  p_exit :: int
  returncode :: "int option"

definition communicate :: "process \<Rightarrow> (string option \<times> string option) \<times> process" where
  "communicate p =
     ((if p_stdout p = OutPipe then Some (p_out p) else None,
       if p_stderr p = OutPipe then Some (p_err p) else None),
      p\<lparr>returncode := Some (p_exit p)\<rparr>)"

definition proc_wait :: "process \<Rightarrow> int \<times> process" where
  "proc_wait p = (p_exit p, p\<lparr>returncode := Some (p_exit p)\<rparr>)"

text \<open>
  \<^verbatim>\<open>Popen(cmd, shell=False, env=os.environ, stdin=..., stdout=..., stderr=...)\<close>. The
  operating system is the parameter \<open>os\<close>: for an argument vector it either refuses to
  start a process or gives the output and the status of the process that runs.
\<close>

type_synonym opsys = "string list \<Rightarrow> error + (string \<times> string \<times> int)"

definition popen ::
  "opsys \<Rightarrow> string list \<Rightarrow> stdin_src \<Rightarrow> stdout_dst \<Rightarrow> stdout_dst \<Rightarrow> error + process" where
  "popen os cmd sin sout serr =
     (case os cmd of
        Inl e \<Rightarrow> Inl e
      | Inr (out, err, rc) \<Rightarrow>
          Inr \<lparr>p_argv = cmd, p_stdin = sin, p_stdout = sout, p_stderr = serr,
               p_out = out, p_err = err, p_exit = rc, returncode = None\<rparr>)"

section \<open>\<^verbatim>\<open>RunningCommand\<close>\<close>

text \<open>
  \<^verbatim>\<open>self._stdout\<close> and \<^verbatim>\<open>self._stderr\<close> hold a list of strings after
  \<^verbatim>\<open>__init__\<close>, and whatever \<^verbatim>\<open>communicate\<close> returned (a string or \<^verbatim>\<open>None\<close>) after
  \<^verbatim>\<open>wait\<close>. \<^verbatim>\<open>"".join(x)\<close> concatenates a list, gives a string back unchanged and
  raises \<^verbatim>\<open>TypeError\<close> on \<^verbatim>\<open>None\<close>.
\<close>

datatype agg = AggList "string list" | AggStr string | AggNone

fun joined :: "agg \<Rightarrow> error + string" where
  "joined (AggList xs) = Inr (concat xs)"
| "joined (AggStr s) = Inr s"
| "joined AggNone = Inl TypeError"

fun agg_of :: "string option \<Rightarrow> agg" where
  "agg_of None = AggNone"
| "agg_of (Some s) = AggStr s"

text \<open>
  \<open>threads_started\<close> says that \<^verbatim>\<open>_stdout_thread\<close> and \<^verbatim>\<open>_stderr_thread\<close> are thread
  objects and not \<^verbatim>\<open>None\<close>. What the collector threads do is the subject of the last
  section of definitions. The queue \<^verbatim>\<open>_stdin\<close>, which only the thread that feeds the
  standard input reads, is not a field.
\<close>

record running =
  command_ran :: string
  process :: "process option"
  r_stdout :: agg
  r_stderr :: agg
  r_call_args :: call_args
  is_collecting_streams :: bool
  threads_started :: bool

text \<open>
  The property \<^verbatim>\<open>done\<close>: \<^verbatim>\<open>self.process.returncode is not None\<close>. Without a
  process the getter raises \<^verbatim>\<open>AttributeError\<close>; an \<^verbatim>\<open>AttributeError\<close> that leaves a
  property makes Python call \<^verbatim>\<open>RunningCommand.__getattr__\<close>, which evaluates
  \<^verbatim>\<open>getattr(str(self), "done")\<close>, and \<^verbatim>\<open>str(self)\<close> of an object without a process
  raises \<^verbatim>\<open>TypeError\<close> (see \<^verbatim>\<open>__unicode__\<close> below).
\<close>

definition done_prop :: "running \<Rightarrow> error + bool" where
  "done_prop r = (case process r of None \<Rightarrow> Inl TypeError | Some p \<Rightarrow> Inr (returncode p \<noteq> None))"

text \<open>
  \<^verbatim>\<open>
  def wait(self):
      if self.done: return self
      if self.is_collecting_streams:
          self._stdout_thread.join()
          self._stderr_thread.join()
      else:
          self._stdout, self._stderr = self.process.communicate()
          rc = self.process.wait()
          if rc > 0: raise get_rc_exc(rc)(self.stdout, self.stderr)
          return self
  \<close>
  The result is the value returned or the exception raised, the object after the call
  and the module state after the call. The branch that joins the threads returns
  \<^verbatim>\<open>None\<close>. Where the \<^verbatim>\<open>raise\<close> reads \<^verbatim>\<open>self.stdout\<close> and \<^verbatim>\<open>self.stderr\<close>, the
  process has been waited for, so the nested \<^verbatim>\<open>wait()\<close> of the property returns at
  once and the property is the joined buffer (lemma \<open>stdout_prop_done\<close> below).
\<close>

datatype wait_ret = RetSelf | RetNone

definition wait :: "running \<Rightarrow> world \<Rightarrow> (error + wait_ret) \<times> running \<times> world" where
  "wait r w =
     (case done_prop r of
        Inl e \<Rightarrow> (Inl e, r, w)
      | Inr True \<Rightarrow> (Inr RetSelf, r, w)
      | Inr False \<Rightarrow>
          if is_collecting_streams r then
            (if threads_started r then (Inr RetNone, r, w) else (Inl AttributeError, r, w))
          else
            (case process r of
               None \<Rightarrow> (Inl AttributeError, r, w)
             | Some p \<Rightarrow>
                 (let ((out, err), p1) = communicate p;
                      (rc, p2) = proc_wait p1;
                      r' = r\<lparr>r_stdout := agg_of out, r_stderr := agg_of err, process := Some p2\<rparr>
                  in if rc > 0 then
                       (let (cls, w') = get_rc_exc rc w in
                        case joined (r_stdout r') of
                          Inl e \<Rightarrow> (Inl e, r', w')
                        | Inr so \<Rightarrow>
                            (case joined (r_stderr r') of
                               Inl e \<Rightarrow> (Inl e, r', w')
                             | Inr se \<Rightarrow>
                                 (case instantiate cls [Some so, Some se] of
                                    Inl e \<Rightarrow> (Inl e, r', w')
                                  | Inr x \<Rightarrow> (Inl (ErrorReturnCode x), r', w'))))
                     else (Inr RetSelf, r', w))))"

text \<open>
  The properties \<^verbatim>\<open>stdout\<close> and \<^verbatim>\<open>stderr\<close>:
  \<^verbatim>\<open>if self.call_args["bg"]: self.wait()\<close>, then \<^verbatim>\<open>return "".join(self._stdout)\<close>.
  When \<^verbatim>\<open>wait\<close> raises \<^verbatim>\<open>AttributeError\<close> (the threads to join are \<^verbatim>\<open>None\<close>), the
  error leaves a property, so Python calls \<^verbatim>\<open>__getattr__\<close>, which evaluates
  \<^verbatim>\<open>str(self)\<close>; the object has a process, so \<^verbatim>\<open>__unicode__\<close> reads
  \<^verbatim>\<open>self.stdout\<close> again, and the recursion ends at the recursion limit with
  \<^verbatim>\<open>RuntimeError\<close>. Any other exception of \<^verbatim>\<open>wait\<close> is passed on.
\<close>

fun property_error :: "error \<Rightarrow> error" where
  "property_error AttributeError = RuntimeError"
| "property_error e = e"

definition stdout_prop :: "running \<Rightarrow> world \<Rightarrow> (error + string) \<times> running \<times> world" where
  "stdout_prop r w =
     (if truthy (ca_bg (r_call_args r)) then
        (case wait r w of
           (Inl e, r', w') \<Rightarrow> (Inl (property_error e), r', w')
         | (Inr v, r', w') \<Rightarrow> (joined (r_stdout r'), r', w'))
      else (joined (r_stdout r), r, w))"

definition stderr_prop :: "running \<Rightarrow> world \<Rightarrow> (error + string) \<times> running \<times> world" where
  "stderr_prop r w =
     (if truthy (ca_bg (r_call_args r)) then
        (case wait r w of
           (Inl e, r', w') \<Rightarrow> (Inl (property_error e), r', w')
         | (Inr v, r', w') \<Rightarrow> (joined (r_stderr r'), r', w'))
      else (joined (r_stderr r), r, w))"

text \<open>
  \<^verbatim>\<open>RunningCommand.__init__(self, command_ran, process, call_args, stdin,
  stdout_callback, stderr_callback)\<close>. The branch that starts the collector threads
  returns at once; otherwise a background or with-context call returns, and any other
  call blocks in \<^verbatim>\<open>communicate\<close>, waits, and raises when \<^verbatim>\<open>rc > 0\<close>.
\<close>

text \<open>
  \<open>running_block\<close> is the part of \<^verbatim>\<open>__init__\<close> after the branch for the collector
  threads. \<open>or_empty\<close> is \<^verbatim>\<open>out or ""\<close>. The bytes given to \<^verbatim>\<open>communicate\<close> as
  standard input do not appear: the output and the status of the process are those of
  the run that the process record describes.
\<close>

definition or_empty :: "string option \<Rightarrow> string" where
  "or_empty s = (case s of None \<Rightarrow> [] | Some t \<Rightarrow> t)"

definition running_block :: "running \<Rightarrow> world \<Rightarrow> (error + running) \<times> world" where
  "running_block r w =
     (if truthy (ca_bg (r_call_args r)) then (Inr r, w)
      else if truthy (ca_with (r_call_args r)) then (Inr r, w)
      else
        (case process r of
           None \<Rightarrow> (Inl AttributeError, w)
         | Some p \<Rightarrow>
             (let ((out, err), p1) = communicate p;
                  (rc, p2) = proc_wait p1;
                  r' = r\<lparr>r_stdout := AggList [or_empty out], r_stderr := AggList [or_empty err],
                         process := Some p2\<rparr>
              in if rc > 0 then
                   (let (cls, w') = get_rc_exc rc w in
                    case stdout_prop r' w' of
                      (Inl e, r1, w1) \<Rightarrow> (Inl e, w1)
                    | (Inr so, r1, w1) \<Rightarrow>
                        (case stderr_prop r1 w1 of
                           (Inl e, r2, w2) \<Rightarrow> (Inl e, w2)
                         | (Inr se, r2, w2) \<Rightarrow>
                             (case instantiate cls [Some (command_ran r2), Some so, Some se] of
                                Inl e \<Rightarrow> (Inl e, w2)
                              | Inr x \<Rightarrow> (Inl (ErrorReturnCode x), w2))))
                 else (Inr r', w))))"

definition running_init ::
  "string \<Rightarrow> process option \<Rightarrow> call_args \<Rightarrow> string option \<Rightarrow> pyval \<Rightarrow> pyval \<Rightarrow> world
     \<Rightarrow> (error + running) \<times> world" where
  "running_init cmd_ran proc ca stdin stdout_callback stderr_callback w =
     (let r = \<lparr>command_ran = cmd_ran, process = proc, r_stdout = AggList [], r_stderr = AggList [],
               r_call_args = ca,
               is_collecting_streams = (truthy stdout_callback \<or> truthy stderr_callback),
               threads_started = False\<rparr>
      in if is_collecting_streams r \<and> \<not> truthy (ca_fg ca) \<and> \<not> truthy (ca_with ca) then
           (case done_prop r of
              Inl e \<Rightarrow> (Inl e, w)
            | Inr False \<Rightarrow> (Inr (r\<lparr>threads_started := True\<rparr>), w)
            | Inr True \<Rightarrow> running_block r w)
         else running_block r w)"


subsection \<open>String conversion\<close>

text \<open>
  \<^verbatim>\<open>
  def __str__(self):
      if IS_PY3: return self.__unicode__()
      else: return unicode(self).encode("utf-8")

  def __unicode__(self):
      if self.process:
          if self.stdout: return self.stdout.decode("utf-8") # byte string
          else: return ""
  \<close>
  A method that ends without \<^verbatim>\<open>return\<close> returns \<^verbatim>\<open>None\<close>. The result of
  \<^verbatim>\<open>__unicode__\<close> is \<^verbatim>\<open>None\<close>, a byte string or a text (a list of code points).
  The UTF-8 codec of the library is the pair of parameters \<open>decode\<close> and \<open>encode\<close>.
  The interpreter is Python 2 (\<^verbatim>\<open>IS_PY3\<close> is false): \<^verbatim>\<open>unicode(x)\<close> takes the text
  that \<^verbatim>\<open>x.__unicode__()\<close> returns, decodes a byte string with the ASCII codec, and
  raises \<^verbatim>\<open>TypeError\<close> for anything else.
\<close>

datatype ustr = UNone | UBytes string | UText "nat list"

definition unicode_method ::
  "(string \<Rightarrow> error + nat list) \<Rightarrow> running \<Rightarrow> world \<Rightarrow> (error + ustr) \<times> running \<times> world" where
  "unicode_method decode r w =
     (case process r of
        None \<Rightarrow> (Inr UNone, r, w)
      | Some p \<Rightarrow>
          (case stdout_prop r w of
             (Inl e, r1, w1) \<Rightarrow> (Inl e, r1, w1)
           | (Inr s, r1, w1) \<Rightarrow>
               if s \<noteq> [] then
                 (case stdout_prop r1 w1 of
                    (Inl e, r2, w2) \<Rightarrow> (Inl e, r2, w2)
                  | (Inr s', r2, w2) \<Rightarrow>
                      (case decode s' of
                         Inl e \<Rightarrow> (Inl e, r2, w2)
                       | Inr u \<Rightarrow> (Inr (UText u), r2, w2)))
               else (Inr (UBytes []), r1, w1)))"

definition ascii_decode :: "string \<Rightarrow> error + nat list" where
  "ascii_decode s =
     (if list_all (\<lambda>c. (of_char c :: nat) < 128) s then Inr (map of_char s)
      else Inl (ValueError ''UnicodeDecodeError''))"

definition str_method ::
  "(string \<Rightarrow> error + nat list) \<Rightarrow> (nat list \<Rightarrow> string) \<Rightarrow> running \<Rightarrow> world
     \<Rightarrow> (error + string) \<times> running \<times> world" where
  "str_method decode encode r w =
     (case unicode_method decode r w of
        (Inl e, r', w') \<Rightarrow> (Inl e, r', w')
      | (Inr UNone, r', w') \<Rightarrow> (Inl TypeError, r', w')
      | (Inr (UText u), r', w') \<Rightarrow> (Inr (encode u), r', w')
      | (Inr (UBytes s), r', w') \<Rightarrow>
          (case ascii_decode s of
             Inl e \<Rightarrow> (Inl e, r', w')
           | Inr u \<Rightarrow> (Inr (encode u), r', w')))"

section \<open>\<^verbatim>\<open>Command\<close>\<close>

text \<open>
  \<^verbatim>\<open>_extract_call_args(kwargs, to_override={})\<close>: for each special argument
  \<^verbatim>\<open>parg\<close>, the value of the keyword \<^verbatim>\<open>"_" + parg\<close> when it is given, else the value
  in \<^verbatim>\<open>to_override\<close> when it has one, else the default; the special keywords are
  removed from the keyword arguments that are returned.
\<close>

definition override ::
  "(string \<times> pyval) list \<Rightarrow> call_args option \<Rightarrow> string \<Rightarrow> (call_args \<Rightarrow> pyval) \<Rightarrow> pyval" where
  "override kwargs to_override parg sel =
     (case map_of kwargs (CHR ''_'' # parg) of
        Some v \<Rightarrow> v
      | None \<Rightarrow> (case to_override of Some t \<Rightarrow> sel t | None \<Rightarrow> sel default_call_args))"

definition special_keys :: "string list" where
  "special_keys = [''_fg'', ''_bg'', ''_with'', ''_out'', ''_err'', ''_err_to_out'', ''_bufsize'']"

definition extract_call_args ::
  "(string \<times> pyval) list \<Rightarrow> call_args option \<Rightarrow> call_args \<times> (string \<times> pyval) list" where
  "extract_call_args kwargs to_override =
     (\<lparr>ca_fg = override kwargs to_override ''fg'' ca_fg,
       ca_bg = override kwargs to_override ''bg'' ca_bg,
       ca_with = override kwargs to_override ''with'' ca_with,
       ca_out = override kwargs to_override ''out'' ca_out,
       ca_err = override kwargs to_override ''err'' ca_err,
       ca_err_to_out = override kwargs to_override ''err_to_out'' ca_err_to_out,
       ca_bufsize = override kwargs to_override ''bufsize'' ca_bufsize\<rparr>,
      filter (\<lambda>kv. fst kv \<notin> set special_keys) kwargs)"

text \<open>\<^verbatim>\<open>Command(path)\<close> allocates a new object.\<close>

definition new_command :: "string \<Rightarrow> world \<Rightarrow> nat \<times> world" where
  "new_command pth w =
     (length (commands w),
      w\<lparr>commands := commands w @
           [\<lparr>path = pth, partial = False, partial_baked_args = [], partial_call_args = None\<rparr>]\<rparr>)"

definition update_command :: "nat \<Rightarrow> (command \<Rightarrow> command) \<Rightarrow> world \<Rightarrow> world" where
  "update_command ref f w = w\<lparr>commands := (commands w)[ref := f (commands w ! ref)]\<rparr>"

text \<open>
  \<^verbatim>\<open>
  def bake(self, *args, **kwargs):
      fn = Command(self._path)
      fn._partial = True
      fn._partial_call_args, kwargs = self._extract_call_args(kwargs)
      processed_args = self._compile_args(args, kwargs)
      fn._partial_baked_args = processed_args
      return fn
  \<close>
  This is the body of the method: what \<^verbatim>\<open>Command.bake(cmd, ...)\<close> runs, and what
  \<^verbatim>\<open>cmd.bake(...)\<close> runs when the attribute lookup gives the method (see
  \<open>getattribute\<close> and \<open>dot_bake\<close> below). \<open>self\<close> is the reference of an allocated
  command. The result is the reference of the new command, or the exception of
  \<^verbatim>\<open>_compile_args\<close>.
\<close>

definition bake ::
  "nat \<Rightarrow> pyval list \<Rightarrow> (string \<times> pyval) list \<Rightarrow> world \<Rightarrow> (error + nat) \<times> world" where
  "bake self args kwargs w =
     (let (fn, w1) = new_command (path (commands w ! self)) w;
          w2 = update_command fn (\<lambda>c. c\<lparr>partial := True\<rparr>) w1;
          (ca, kwargs') = extract_call_args kwargs None;
          w3 = update_command fn (\<lambda>c. c\<lparr>partial_call_args := Some ca\<rparr>) w2
      in case compile_args args kwargs' of
           Inl e \<Rightarrow> (Inl e, w3)
         | Inr processed_args \<Rightarrow>
             (Inr fn, update_command fn (\<lambda>c. c\<lparr>partial_baked_args := processed_args\<rparr>) w3))"

text \<open>
  \<^verbatim>\<open>Command.__enter__\<close> pushes \<^verbatim>\<open>[self._path]\<close>; \<^verbatim>\<open>Command.__exit__\<close> pops, and
  \<^verbatim>\<open>list.pop()\<close> on an empty list raises \<^verbatim>\<open>IndexError\<close> (here \<open>None\<close>).
  \<^verbatim>\<open>RunningCommand.__enter__\<close> does nothing; \<^verbatim>\<open>RunningCommand.__exit__\<close> pops when the
  call was made with \<^verbatim>\<open>_with\<close> and the stack is not empty.
\<close>

definition command_enter :: "nat \<Rightarrow> world \<Rightarrow> world" where
  "command_enter self w = w\<lparr>prepend_stack := prepend_stack w @ [[path (commands w ! self)]]\<rparr>"

definition command_exit :: "world \<Rightarrow> world option" where
  "command_exit w =
     (if prepend_stack w = [] then None else Some (w\<lparr>prepend_stack := butlast (prepend_stack w)\<rparr>))"

definition running_enter :: "running \<Rightarrow> world \<Rightarrow> world" where
  "running_enter r w = w"

definition running_exit :: "running \<Rightarrow> world \<Rightarrow> world" where
  "running_exit r w =
     (if truthy (ca_with (r_call_args r)) \<and> prepend_stack w \<noteq> []
      then w\<lparr>prepend_stack := butlast (prepend_stack w)\<rparr> else w)"

text \<open>
  \<^verbatim>\<open>Command.__call__\<close>, first part (up to \<^verbatim>\<open>command_ran = " ".join(cmd)\<close>): the
  argument vector and the call arguments. A call whose first positional argument is a
  \<^verbatim>\<open>RunningCommand\<close> is written with that object as \<open>piped\<close> and the other
  arguments as \<open>args\<close>; \<^verbatim>\<open>RunningCommand\<close> objects at other positions are outside
  this model.
\<close>

record plan =
  pl_cmd :: "string list"
  pl_command_ran :: string
  pl_call_args :: call_args
  pl_stdin :: stdin_src
  pl_actual_stdin :: "string option"

definition call_cmd ::
  "nat \<Rightarrow> running option \<Rightarrow> pyval list \<Rightarrow> (string \<times> pyval) list \<Rightarrow> world \<Rightarrow> error + plan" where
  "call_cmd self piped args kwargs w =
     (let c = commands w ! self;
          cmd = concat (prepend_stack w) @ [path c];
          (ca, kwargs') = extract_call_args kwargs (partial_call_args c);
          pipe = (if truthy (ca_fg ca) then StdinInherit else StdinPipe);
          piping =
            (case piped of
               None \<Rightarrow> Inr (ca, pipe, None)
             | Some first_arg \<Rightarrow>
                 if truthy (ca_bg (r_call_args first_arg)) then
                   (case process first_arg of
                      None \<Rightarrow> Inl AttributeError
                    | Some p \<Rightarrow> Inr (ca\<lparr>ca_bg := PBool True\<rparr>, StdinUpstream (p_argv p), None))
                 else
                   (case fst (stdout_prop first_arg w) of
                      Inl e \<Rightarrow> Inl e
                    | Inr s \<Rightarrow> Inr (ca, pipe, Some s)))
      in case piping of
           Inl e \<Rightarrow> Inl e
         | Inr (ca', sin, actual_stdin) \<Rightarrow>
             (case compile_args args kwargs' of
                Inl e \<Rightarrow> Inl e
              | Inr processed_args \<Rightarrow>
                  (let split_args = partial_baked_args c @ processed_args;
                       final_cmd = cmd @ split_args
                   in Inr \<lparr>pl_cmd = final_cmd, pl_command_ran = join '' '' final_cmd,
                           pl_call_args = ca', pl_stdin = sin, pl_actual_stdin = actual_stdin\<rparr>)))"

text \<open>
  The wiring of one output stream: \<^verbatim>\<open>call_args["out"]\<close> is a callback (the stream
  stays a pipe), a file object, or anything else true, whose \<^verbatim>\<open>str\<close> is the name of
  a file that is opened for writing.
\<close>

definition wire :: "stdout_dst \<Rightarrow> pyval \<Rightarrow> pyval \<times> stdout_dst" where
  "wire pipe out =
     (if truthy out then
        (case out of
           PCallable f \<Rightarrow> (out, pipe)
         | PFile f \<Rightarrow> (PNone, OutFileObj f)
         | _ \<Rightarrow> (PNone, OutNewFile (py_str out)))
      else (PNone, pipe))"

text \<open>
  \<^verbatim>\<open>Command.__call__\<close>, second part: a with-context call pushes \<^verbatim>\<open>cmd\<close> on the prefix
  stack and returns a \<^verbatim>\<open>RunningCommand\<close> without a process; any other call starts the
  process and returns \<^verbatim>\<open>RunningCommand(command_ran, process, call_args, actual_stdin,
  stdout_callback, stderr_callback)\<close>.
\<close>

definition call ::
  "opsys \<Rightarrow> nat \<Rightarrow> running option \<Rightarrow> pyval list \<Rightarrow> (string \<times> pyval) list \<Rightarrow> world
     \<Rightarrow> (error + running) \<times> world" where
  "call os self piped args kwargs w =
     (case call_cmd self piped args kwargs w of
        Inl e \<Rightarrow> (Inl e, w)
      | Inr pl \<Rightarrow>
          (let ca = pl_call_args pl in
           if truthy (ca_with ca) then
             running_init (pl_command_ran pl) None ca None PNone PNone
               (w\<lparr>prepend_stack := prepend_stack w @ [pl_cmd pl]\<rparr>)
           else
             (let pipe = (if truthy (ca_fg ca) then OutInherit else OutPipe);
                  (stdout_callback, sout) = wire pipe (ca_out ca);
                  (stderr_callback, serr) = wire pipe (ca_err ca);
                  serr' = (if truthy (ca_err_to_out ca) then OutToStdout else serr)
              in case popen os (pl_cmd pl) (pl_stdin pl) sout serr' of
                   Inl e \<Rightarrow> (Inl e, w)
                 | Inr p \<Rightarrow>
                     running_init (pl_command_ran pl) (Some p) ca (pl_actual_stdin pl)
                       stdout_callback stderr_callback w)))"


subsection \<open>Attribute lookup on a command\<close>

text \<open>
  \<^verbatim>\<open>
  def __getattribute__(self, name):
      getattr = partial(object.__getattribute__, self)
      if name.startswith("_"): return getattr(name)
      try: attr = getattr(name)
      except AttributeError: return BakedCommand(self, name)
      if self._partial: return BakedCommand(self, name)
      return attr
  \<close>
  The names without a leading underscore that a \<^verbatim>\<open>Command\<close> object has are
  \<^verbatim>\<open>call_args\<close> and \<^verbatim>\<open>bake\<close>. The lookup gives either what
  \<^verbatim>\<open>object.__getattribute__\<close> gives for the name (\<open>ObjectAttribute\<close>) or
  \<^verbatim>\<open>BakedCommand(self, name)\<close>: on a baked command every name without a leading
  underscore is a subcommand, \<^verbatim>\<open>bake\<close> too. The implicit uses of special methods
  (\<^verbatim>\<open>cmd(...)\<close>, \<^verbatim>\<open>with cmd:\<close>) find the method on the class and do not pass
  through \<^verbatim>\<open>__getattribute__\<close>.
\<close>

datatype attribute = ObjectAttribute string | BakedCommand nat string

definition public_attributes :: "string list" where
  "public_attributes = [''call_args'', ''bake'']"

definition getattribute :: "nat \<Rightarrow> string \<Rightarrow> world \<Rightarrow> attribute" where
  "getattribute self name w =
     (if take 1 name = ''_'' then ObjectAttribute name
      else if name \<notin> set public_attributes then BakedCommand self name
      else if partial (commands w ! self) then BakedCommand self name
      else ObjectAttribute name)"

text \<open>
  \<^verbatim>\<open>BakedCommand.__call__(self, *args, **kwargs)\<close> is
  \<^verbatim>\<open>partial(cmd, attr)(*args, **kwargs)\<close>: the command is called with the attribute
  name as its first argument.
\<close>

definition baked_command_call ::
  "opsys \<Rightarrow> nat \<Rightarrow> string \<Rightarrow> pyval list \<Rightarrow> (string \<times> pyval) list \<Rightarrow> world
     \<Rightarrow> (error + running) \<times> world" where
  "baked_command_call os cmd attr args kwargs w = call os cmd None (PStr attr # args) kwargs w"

text \<open>
  The expression \<^verbatim>\<open>cmd.bake(*args, **kwargs)\<close>: the attribute lookup, then the call
  of what the lookup gives. Its value is a new command or, on a baked command, the
  handle of an invocation of the subcommand \<^verbatim>\<open>bake\<close>.
\<close>

datatype bake_value = NewCommand nat | Invocation running

definition dot_bake ::
  "opsys \<Rightarrow> nat \<Rightarrow> pyval list \<Rightarrow> (string \<times> pyval) list \<Rightarrow> world
     \<Rightarrow> (error + bake_value) \<times> world" where
  "dot_bake os self args kwargs w =
     (case getattribute self ''bake'' w of
        BakedCommand cmd attr \<Rightarrow>
          (case baked_command_call os cmd attr args kwargs w of
             (Inl e, w') \<Rightarrow> (Inl e, w')
           | (Inr r, w') \<Rightarrow> (Inr (Invocation r), w'))
      | ObjectAttribute attr \<Rightarrow>
          (case bake self args kwargs w of
             (Inl e, w') \<Rightarrow> (Inl e, w')
           | (Inr fn, w') \<Rightarrow> (Inr (NewCommand fn), w')))"

section \<open>The collector threads: \<^verbatim>\<open>RunningCommand._collect_stream\<close>\<close>

text \<open>
  When a callback is given, \<^verbatim>\<open>__init__\<close> starts two threads that run
  \<^verbatim>\<open>_collect_stream\<close>, one on the standard output of the process and one on its
  standard error. Each thread reads its stream to the end, appending every unit to its
  buffer, and then runs
  \<^verbatim>\<open>
  finally:
      if is_last_thread():
          rc = self.process.wait()
          if rc > 0: raise get_rc_exc(rc)(self.command_ran, self.stdout, self.stderr)
  \<close>
  with
  \<^verbatim>\<open>
  def is_last_thread():
      return (not self._stdout_thread.is_alive()) or (not self._stderr_thread.is_alive())
  \<close>
  A thread is alive from its start until its target function has returned and the
  thread has ended; in particular it is alive while it runs its own \<^verbatim>\<open>finally\<close>
  block. The threads are interleaved by a schedule: a list that names, step by step,
  the thread that moves. A thread in phase \<open>Reading\<close> moves by reading its stream to
  the end and running the \<^verbatim>\<open>finally\<close> block, which reads the liveness of the other
  thread once; a thread in phase \<open>Returned\<close> moves by ending.
\<close>

datatype tid = StdoutThread | StderrThread

datatype phase = Reading | Returned | Stopped

record collectors =
  c_handle :: running
  c_world :: world
  stdout_phase :: phase
  stderr_phase :: phase
  exit_checks :: nat
  raised :: "error list"

definition collectors_start :: "running \<Rightarrow> world \<Rightarrow> collectors" where
  "collectors_start r w =
     \<lparr>c_handle = r, c_world = w, stdout_phase = Reading, stderr_phase = Reading,
      exit_checks = 0, raised = []\<rparr>"

definition is_alive :: "phase \<Rightarrow> bool" where
  "is_alive ph = (ph \<noteq> Stopped)"

definition is_last_thread :: "collectors \<Rightarrow> bool" where
  "is_last_thread s = ((\<not> is_alive (stdout_phase s)) \<or> (\<not> is_alive (stderr_phase s)))"

text \<open>
  The units that the read loop appends: lines (each with its newline) when
  \<^verbatim>\<open>bufsize == 1\<close>, else chunks of \<^verbatim>\<open>bufsize\<close> bytes, with 0 read as 1. A negative
  size makes \<^verbatim>\<open>stream.read\<close> return everything at once; a size that is not a number
  makes it raise \<^verbatim>\<open>TypeError\<close>.
\<close>

fun lines_from :: "string \<Rightarrow> string \<Rightarrow> string list" where
  "lines_from cur [] = (if cur = [] then [] else [cur])"
| "lines_from cur (c # cs) =
     (if c = CHR 0x0A then (cur @ [c]) # lines_from [] cs else lines_from (cur @ [c]) cs)"

fun chunks_of :: "nat \<Rightarrow> string \<Rightarrow> string list" where
  "chunks_of n s = (if n = 0 \<or> s = [] then [] else take n s # chunks_of n (drop n s))"

declare chunks_of.simps [simp del]

fun read_units :: "pyval \<Rightarrow> string \<Rightarrow> error + string list" where
  "read_units (PInt n) s =
     (if n = 1 then Inr (lines_from [] s)
      else if n = 0 then Inr (chunks_of 1 s)
      else if n < 0 then Inr (if s = [] then [] else [s])
      else Inr (chunks_of (nat n) s))"
| "read_units (PBool b) s = (if b then Inr (lines_from [] s) else Inr (chunks_of 1 s))"
| "read_units v s = Inl TypeError"

fun append_agg :: "agg \<Rightarrow> string list \<Rightarrow> agg" where
  "append_agg (AggList xs) us = AggList (xs @ us)"
| "append_agg a us = a"

definition drain :: "tid \<Rightarrow> collectors \<Rightarrow> error option \<times> collectors" where
  "drain t s =
     (let r = c_handle s in
      case process r of
        None \<Rightarrow> (Some AttributeError, s)
      | Some p \<Rightarrow>
          (let piped = (case t of StdoutThread \<Rightarrow> p_stdout p = OutPipe
                                | StderrThread \<Rightarrow> p_stderr p = OutPipe);
               data = (case t of StdoutThread \<Rightarrow> p_out p | StderrThread \<Rightarrow> p_err p)
           in if \<not> piped then (Some AttributeError, s)
              else
                (case read_units (ca_bufsize (r_call_args r)) data of
                   Inl e \<Rightarrow> (Some e, s)
                 | Inr us \<Rightarrow>
                     (None,
                      s\<lparr>c_handle :=
                          (case t of
                             StdoutThread \<Rightarrow> r\<lparr>r_stdout := append_agg (r_stdout r) us\<rparr>
                           | StderrThread \<Rightarrow> r\<lparr>r_stderr := append_agg (r_stderr r) us\<rparr>)\<rparr>))))"

definition finally_block :: "collectors \<Rightarrow> error option \<times> collectors" where
  "finally_block s =
     (if is_last_thread s then
        (case process (c_handle s) of
           None \<Rightarrow> (Some AttributeError, s)
         | Some p \<Rightarrow>
             (let (rc, p') = proc_wait p;
                  r = (c_handle s)\<lparr>process := Some p'\<rparr>;
                  s1 = s\<lparr>c_handle := r, exit_checks := exit_checks s + 1\<rparr>
              in if rc > 0 then
                   (let (cls, w') = get_rc_exc rc (c_world s1) in
                    case stdout_prop r w' of
                      (Inl e, r1, w1) \<Rightarrow> (Some e, s1\<lparr>c_handle := r1, c_world := w1\<rparr>)
                    | (Inr so, r1, w1) \<Rightarrow>
                        (case stderr_prop r1 w1 of
                           (Inl e, r2, w2) \<Rightarrow> (Some e, s1\<lparr>c_handle := r2, c_world := w2\<rparr>)
                         | (Inr se, r2, w2) \<Rightarrow>
                             (case instantiate cls [Some (command_ran r2), Some so, Some se] of
                                Inl e \<Rightarrow> (Some e, s1\<lparr>c_handle := r2, c_world := w2\<rparr>)
                              | Inr x \<Rightarrow>
                                  (Some (ErrorReturnCode x),
                                   s1\<lparr>c_handle := r2, c_world := w2\<rparr>))))
                 else (None, s1)))
      else (None, s))"

definition phase_of :: "tid \<Rightarrow> collectors \<Rightarrow> phase" where
  "phase_of t s = (case t of StdoutThread \<Rightarrow> stdout_phase s | StderrThread \<Rightarrow> stderr_phase s)"

definition set_phase :: "tid \<Rightarrow> phase \<Rightarrow> collectors \<Rightarrow> collectors" where
  "set_phase t ph s =
     (case t of StdoutThread \<Rightarrow> s\<lparr>stdout_phase := ph\<rparr> | StderrThread \<Rightarrow> s\<lparr>stderr_phase := ph\<rparr>)"

text \<open>
  One move of thread \<open>t\<close>. An exception of the \<^verbatim>\<open>finally\<close> block replaces one of
  the read loop; the exception that ends the thread is recorded in \<open>raised\<close>.
\<close>

definition thread_step :: "tid \<Rightarrow> collectors \<Rightarrow> collectors" where
  "thread_step t s =
     (case phase_of t s of
        Reading \<Rightarrow>
          (let (e1, s1) = drain t s;
               (e2, s2) = finally_block s1;
               exc = (case e2 of Some e \<Rightarrow> [e] | None \<Rightarrow> (case e1 of Some e \<Rightarrow> [e] | None \<Rightarrow> []))
           in set_phase t Returned (s2\<lparr>raised := raised s2 @ exc\<rparr>))
      | Returned \<Rightarrow> set_phase t Stopped s
      | Stopped \<Rightarrow> s)"

definition run_threads :: "tid list \<Rightarrow> collectors \<Rightarrow> collectors" where
  "run_threads schedule s = foldl (\<lambda>s t. thread_step t s) s schedule"


section \<open>Predicates used in the statements\<close>

text \<open>
  A plain character is one that the tokenizer copies into the current word: not
  whitespace, not a quote, not the backslash. Every character of a Python identifier
  (a letter, a digit, the underscore) is plain. A plain word is a non-empty string of
  plain characters.
\<close>

definition plain_char :: "char \<Rightarrow> bool" where
  "plain_char c = (c \<notin> sh_whitespace \<and> c \<notin> sh_quotes \<and> c \<noteq> sh_escape)"

definition plain_word :: "string \<Rightarrow> bool" where
  "plain_word s = (s \<noteq> [] \<and> list_all plain_char s)"

text \<open>
  Two invariants of the module state. Only \<^verbatim>\<open>get_rc_exc\<close> writes the cache, and it
  writes under a string: no key of the cache is an integer. Every class in the cache
  is a subclass of \<^verbatim>\<open>ErrorReturnCode\<close>. Both hold in the initial state and after
  every \<^verbatim>\<open>get_rc_exc\<close>.
\<close>

definition string_keyed :: "world \<Rightarrow> bool" where
  "string_keyed w = (\<forall>rc. rc_exc_cache w (KInt rc) = None)"

definition cache_ok :: "world \<Rightarrow> bool" where
  "cache_ok w = (\<forall>k c. rc_exc_cache w k = Some c \<longrightarrow> issubclass w c C_ErrorReturnCode)"

text \<open>
  The exit code of a raised failure: the number in the name of its class, read the way
  \<^verbatim>\<open>Environment.__missing__\<close> reads it.
\<close>

definition failure_code :: "world \<Rightarrow> error \<Rightarrow> int option" where
  "failure_code w e =
     (case e of ErrorReturnCode x \<Rightarrow> rc_of_name (class_name w (exc_class x)) | _ \<Rightarrow> None)"

text \<open>
  The invariant of the collector threads: no exit check has run, or one has run and
  no thread is in its read loop any more.
\<close>

definition checked_once :: "collectors \<Rightarrow> bool" where
  "checked_once s =
     (exit_checks s = 0
      \<or> (exit_checks s = 1 \<and> stdout_phase s \<noteq> Reading \<and> stderr_phase s \<noteq> Reading))"

subsection \<open>Concrete inputs\<close>

text \<open>
  An operating system on which every program prints \<^verbatim>\<open>out\<close> and \<^verbatim>\<open>err\<close> and ends
  with the given status; module states with one and with three commands; a process
  that \<^verbatim>\<open>SIGTERM\<close> ended, for which \<^verbatim>\<open>Popen.wait()\<close> reports -15; a process that
  exits with code 2.
\<close>

definition os_exit :: "int \<Rightarrow> opsys" where
  "os_exit rc = (\<lambda>cmd. Inr (''out'', ''err'', rc))"

definition one_command :: "string \<Rightarrow> world" where
  "one_command p = snd (new_command p initial_world)"

definition three_commands :: world where
  "three_commands =
     snd (new_command ''/bin/ls'' (snd (new_command ''/usr/bin/env''
       (snd (new_command ''/usr/bin/sudo'' initial_world)))))"

definition killed_process :: process where
  "killed_process =
     \<lparr>p_argv = [''/bin/sleep'', ''100''], p_stdin = StdinPipe, p_stdout = OutPipe,
      p_stderr = OutPipe, p_out = [], p_err = [], p_exit = - 15, returncode = None\<rparr>"

definition exit2_process :: process where
  "exit2_process =
     \<lparr>p_argv = [''/bin/ls'', ''/nonexistent''], p_stdin = StdinPipe, p_stdout = OutPipe,
      p_stderr = OutPipe, p_out = [], p_err = ''ls: cannot access'', p_exit = 2,
      returncode = None\<rparr>"

section \<open>Decimal numerals\<close>

lemma digit_char_props: "d < 10 \<Longrightarrow> is_digit (digit_char d) \<and> digit_val (digit_char d) = d"
  by (simp add: digit_char_def is_digit_def digit_val_def)

lemma str_of_nat_nonempty: "str_of_nat n \<noteq> []"
  by (subst str_of_nat.simps) simp

lemma str_of_nat_digits: "list_all is_digit (str_of_nat n)"
proof (induction n rule: str_of_nat.induct)
  case (1 n)
  show ?case
  proof (cases "n < 10")
    case True
    then show ?thesis by (subst str_of_nat.simps) (simp add: digit_char_props)
  next
    case False
    then have "list_all is_digit (str_of_nat (n div 10))" using 1 by simp
    moreover have "is_digit (digit_char (n mod 10))" by (simp add: digit_char_props)
    ultimately show ?thesis using False by (subst str_of_nat.simps) simp
  qed
qed

lemma nat_of_digits_snoc: "nat_of_digits (ds @ [c]) = 10 * nat_of_digits ds + digit_val c"
  by (simp add: nat_of_digits_def)

lemma nat_of_digits_str_of_nat: "nat_of_digits (str_of_nat n) = n"
proof (induction n rule: str_of_nat.induct)
  case (1 n)
  show ?case
  proof (cases "n < 10")
    case True
    then show ?thesis
      by (subst str_of_nat.simps) (simp add: nat_of_digits_def digit_char_props)
  next
    case False
    then have "nat_of_digits (str_of_nat (n div 10)) = n div 10" using 1 by simp
    then show ?thesis using False
      by (subst str_of_nat.simps) (simp add: nat_of_digits_snoc digit_char_props)
  qed
qed

lemma takeWhile_all: "list_all P xs \<Longrightarrow> takeWhile P xs = xs"
  by (induction xs) auto

text \<open>The name made for a non-negative status reads back as that status.\<close>

lemma rc_of_name_roundtrip:
  "0 \<le> rc \<Longrightarrow> rc_of_name (''ErrorReturnCode_'' @ str_of_int rc) = Some rc"
  by (simp add: rc_of_name_def str_of_int_def takeWhile_all str_of_nat_digits
      str_of_nat_nonempty nat_of_digits_str_of_nat)

section \<open>Word splitting of plain words\<close>

lemma lex_word_plain_end:
  "list_all plain_char s \<Longrightarrow> tok @ s \<noteq> [] \<Longrightarrow> lex SWord tok quoted esc s = Inr [tok @ s]"
  by (induction s arbitrary: tok) (auto simp: plain_char_def)

lemma lex_word_plain_space:
  "list_all plain_char s \<Longrightarrow> tok @ s \<noteq> [] \<Longrightarrow>
   lex SWord tok quoted esc (s @ CHR 0x20 # rest) =
     (case lex SSpace [] False SSpace rest of Inl e \<Rightarrow> Inl e | Inr ts \<Rightarrow> Inr ((tok @ s) # ts))"
  by (induction s arbitrary: tok) (auto simp: plain_char_def sh_whitespace_def split: sum.splits)

lemma lex_space_plain_word_end:
  "plain_word s \<Longrightarrow> lex SSpace [] False SSpace s = Inr [s]"
  by (cases s) (auto simp: plain_word_def plain_char_def lex_word_plain_end)

lemma lex_space_plain_word_space:
  assumes "plain_word s"
  shows "lex SSpace [] False SSpace (s @ CHR 0x20 # rest) =
     (case lex SSpace [] False SSpace rest of Inl e \<Rightarrow> Inl e | Inr ts \<Rightarrow> Inr (s # ts))"
proof (cases s)
  case Nil
  with assms show ?thesis by (simp add: plain_word_def)
next
  case (Cons c cs)
  with assms have c: "plain_char c" and cs: "list_all plain_char cs"
    by (simp_all add: plain_word_def)
  from c have "lex SSpace [] False SSpace (c # cs @ CHR 0x20 # rest)
      = lex SWord [c] False SSpace (cs @ CHR 0x20 # rest)"
    by (simp add: plain_char_def)
  also have "\<dots> = (case lex SSpace [] False SSpace rest of
                      Inl e \<Rightarrow> Inl e | Inr ts \<Rightarrow> Inr (([c] @ cs) # ts))"
    using cs by (intro lex_word_plain_space) simp_all
  finally show ?thesis unfolding Cons by (simp cong: sum.case_cong)
qed

lemma lex_plain_words:
  "list_all plain_word (w # ws) \<Longrightarrow> lex SSpace [] False SSpace (join '' '' (w # ws)) = Inr (w # ws)"
proof (induction ws arbitrary: w)
  case Nil
  then show ?case by (simp add: lex_space_plain_word_end)
next
  case (Cons y ys)
  then have w: "plain_word w" and rest: "list_all plain_word (y # ys)" by simp_all
  have "lex SSpace [] False SSpace (join '' '' (w # y # ys))
      = lex SSpace [] False SSpace (w @ CHR 0x20 # join '' '' (y # ys))"
    by simp
  also have "\<dots> = (case lex SSpace [] False SSpace (join '' '' (y # ys)) of
                      Inl e \<Rightarrow> Inl e | Inr ts \<Rightarrow> Inr (w # ts))"
    by (rule lex_space_plain_word_space [OF w])
  also have "\<dots> = Inr (w # y # ys)"
    using Cons.IH [OF rest] by simp
  finally show ?case .
qed

lemma shlex_split_plain_words:
  "list_all plain_word ws \<Longrightarrow> shlex_split (join '' '' ws) = Inr ws"
  by (cases ws) (simp_all add: shlex_split_def lex_plain_words)

lemma compile_args_plain:
  assumes "list_all plain_word ws"
  shows "compile_args (map PStr ws) [] = Inr ws"
proof -
  have "concat (map positional (map PStr ws)) = ws"
    by (induction ws) simp_all
  then show ?thesis using assms by (simp add: compile_args_def shlex_split_plain_words)
qed

section \<open>Flag synthesis\<close>

text \<open>
  C6, as the code has it. For a keyword argument whose key is one plain character
  \<open>k\<close> (not whitespace, not a quote, not the backslash; every character that can
  stand in an identifier is plain) and whose value is \<^verbatim>\<open>True\<close>, the compiled output
  is the one token \<^verbatim>\<open>-k\<close>; for the key \<^verbatim>\<open>foo_bar\<close> with value \<^verbatim>\<open>True\<close> it is
  \<^verbatim>\<open>--foo-bar\<close>; for \<^verbatim>\<open>foo_bar\<close> with the string \<^verbatim>\<open>"x"\<close> it is \<^verbatim>\<open>--foo-bar=x\<close>.
\<close>

theorem compile_args_flags:
  "plain_char k \<Longrightarrow>
     compile_args [] [([k], PBool True)] = Inr [[CHR ''-'', k]]
   \<and> compile_args [] [(''foo_bar'', PBool True)] = Inr [''--foo-bar'']
   \<and> compile_args [] [(''foo_bar'', PStr ''x'')] = Inr [''--foo-bar=x'']"
  by (simp add: plain_char_def compile_args_def keyword_def shlex_split_def sh_whitespace_def
      sh_quotes_def sh_escape_def replace_char_def repr_str_def repr_quote_def repr_char_def
      Let_def)

theorem compile_args_flags_witness:
  "plain_char CHR ''k''
   \<and> compile_args [] [(''k'', PBool True)] = Inr [''-k'']
   \<and> compile_args [] [(''foo_bar'', PBool True)] = Inr [''--foo-bar'']
   \<and> compile_args [] [(''foo_bar'', PStr ''x'')] = Inr [''--foo-bar=x'']"
proof -
  have k: "plain_char CHR ''k''"
    by (simp add: plain_char_def sh_whitespace_def sh_quotes_def sh_escape_def)
  show ?thesis using k compile_args_flags [OF k] by simp
qed


text \<open>
  C6 as stated, for every single-character key, fails for a key that is not plain: a
  dictionary given with \<^verbatim>\<open>**\<close> can have any string as a key, and the compiled tokens
  are joined and split again as shell words. For the key \<^verbatim>\<open>" "\<close> the output is the
  token \<^verbatim>\<open>-\<close>, and for the key \<^verbatim>\<open>"'"\<close> the split raises \<^verbatim>\<open>ValueError\<close>.
\<close>

theorem keyword_key_is_resplit:
  "compile_args [] [([CHR 0x20], PBool True)] = Inr [''-'']
   \<and> compile_args [] [([CHR 0x20], PBool True)] \<noteq> Inr [[CHR ''-'', CHR 0x20]]
   \<and> compile_args [] [([CHR 0x27], PBool True)] = Inl (ValueError ''No closing quotation'')"
  by (simp add: compile_args_def keyword_def shlex_split_def sh_whitespace_def sh_quotes_def
      sh_escape_def sh_escapedquotes_def)


section \<open>The exception classes of exit codes\<close>

lemma string_keyed_initial: "string_keyed initial_world"
  by (simp add: string_keyed_def initial_world_def)

lemma get_rc_exc_miss:
  "string_keyed w \<Longrightarrow>
   get_rc_exc rc w =
     (C_Dynamic (length (classes w)),
      w\<lparr>classes := classes w @
            [\<lparr>cls_name = ''ErrorReturnCode_'' @ str_of_int rc, cls_base = C_ErrorReturnCode,
              cls_mro = C_Dynamic (length (classes w)) # mro w C_ErrorReturnCode\<rparr>],
        rc_exc_cache := (rc_exc_cache w)(KStr (''ErrorReturnCode_'' @ str_of_int rc) \<mapsto>
            C_Dynamic (length (classes w)))\<rparr>)"
  by (simp add: string_keyed_def get_rc_exc_def type_new_def Let_def)

lemma get_rc_exc_name:
  "string_keyed w \<Longrightarrow>
   class_name (snd (get_rc_exc rc w)) (fst (get_rc_exc rc w)) = ''ErrorReturnCode_'' @ str_of_int rc"
  by (simp add: get_rc_exc_miss)

lemma string_keyed_get_rc_exc: "string_keyed w \<Longrightarrow> string_keyed (snd (get_rc_exc rc w))"
  by (simp add: get_rc_exc_miss) (simp add: string_keyed_def)

lemma get_rc_exc_twice_differs:
  assumes "string_keyed w"
  shows "fst (get_rc_exc rc (snd (get_rc_exc rc w))) \<noteq> fst (get_rc_exc rc w)"
proof -
  have b: "string_keyed (snd (get_rc_exc rc w))"
    using assms by (rule string_keyed_get_rc_exc)
  show ?thesis
    by (simp add: get_rc_exc_miss [OF b]) (simp add: get_rc_exc_miss [OF assms])
qed

text \<open>
  C2. The specification says that repeated lookups \<^verbatim>\<open>get_rc_exc(N)\<close> return the same class. The
  code looks the cache up under the integer \<^verbatim>\<open>rc\<close> and fills it under the string
  \<^verbatim>\<open>name\<close>, so the lookup never hits: starting from the initial module state, the
  second \<^verbatim>\<open>get_rc_exc(rc)\<close> returns a class that is not the class the first returned,
  for every \<^verbatim>\<open>rc\<close>.
\<close>

theorem get_rc_exc_makes_new_class:
  "fst (get_rc_exc rc (snd (get_rc_exc rc initial_world))) \<noteq> fst (get_rc_exc rc initial_world)"
  by (rule get_rc_exc_twice_differs [OF string_keyed_initial])

lemma mro_extend:
  "c \<in> set (mro w d) \<Longrightarrow> mro (w\<lparr>classes := classes w @ cs, rc_exc_cache := m\<rparr>) d = mro w d"
  by (cases d) (auto simp: nth_append split: if_splits)

lemma issubclass_extend:
  "issubclass w d c \<Longrightarrow> issubclass (w\<lparr>classes := classes w @ cs, rc_exc_cache := m\<rparr>) d c"
  unfolding issubclass_def using mro_extend by metis

lemma cache_ok_initial: "cache_ok initial_world"
  by (simp add: cache_ok_def initial_world_def)

lemma get_rc_exc_subclass:
  assumes "cache_ok w"
  shows "issubclass (snd (get_rc_exc rc w)) (fst (get_rc_exc rc w)) C_ErrorReturnCode
         \<and> cache_ok (snd (get_rc_exc rc w))"
proof (cases "rc_exc_cache w (KInt rc)")
  case (Some c)
  then show ?thesis using assms by (simp add: get_rc_exc_def cache_ok_def)
next
  case None
  let ?n = "length (classes w)"
  let ?name = "''ErrorReturnCode_'' @ str_of_int rc"
  let ?w' = "w\<lparr>classes := classes w @
            [\<lparr>cls_name = ?name, cls_base = C_ErrorReturnCode,
              cls_mro = C_Dynamic ?n # mro w C_ErrorReturnCode\<rparr>],
        rc_exc_cache := (rc_exc_cache w)(KStr ?name \<mapsto> C_Dynamic ?n)\<rparr>"
  have eq: "get_rc_exc rc w = (C_Dynamic ?n, ?w')"
    using None by (simp add: get_rc_exc_def type_new_def Let_def)
  have new: "issubclass ?w' (C_Dynamic ?n) C_ErrorReturnCode"
    by (simp add: issubclass_def)
  have old: "issubclass ?w' c C_ErrorReturnCode" if "rc_exc_cache w k = Some c" for k c
  proof -
    from that assms have "issubclass w c C_ErrorReturnCode" by (auto simp: cache_ok_def)
    then show ?thesis by (rule issubclass_extend)
  qed
  have "cache_ok ?w'"
    unfolding cache_ok_def
  proof (intro allI impI)
    fix k c assume h: "rc_exc_cache ?w' k = Some c"
    show "issubclass ?w' c C_ErrorReturnCode"
    proof (cases "k = KStr ?name")
      case True
      with h have "c = C_Dynamic ?n" by simp
      then show ?thesis using new by simp
    next
      case False
      with h have "rc_exc_cache w k = Some c" by simp
      then show ?thesis by (rule old)
    qed
  qed
  with new eq show ?thesis by simp
qed

text \<open>
  C10. In every module state whose cached classes are subclasses of
  \<^verbatim>\<open>ErrorReturnCode\<close> (the initial state is one, and \<^verbatim>\<open>get_rc_exc\<close> keeps the
  property), the class that \<^verbatim>\<open>get_rc_exc(rc)\<close> returns is a subclass of
  \<^verbatim>\<open>ErrorReturnCode\<close> for every \<^verbatim>\<open>rc\<close>, so a handler \<^verbatim>\<open>except ErrorReturnCode\<close>
  catches every instance of it, whatever the exit code.
\<close>

theorem get_rc_exc_subclass_of_base:
  "cache_ok w \<Longrightarrow>
     issubclass (snd (get_rc_exc rc w)) (fst (get_rc_exc rc w)) C_ErrorReturnCode
   \<and> catches (snd (get_rc_exc rc w)) C_ErrorReturnCode
       (ErrorReturnCode (error_return_code_init (fst (get_rc_exc rc w)) cmd out err))
   \<and> cache_ok (snd (get_rc_exc rc w))"
  using get_rc_exc_subclass [of w rc]
  by (simp add: catches_def error_return_code_init_def)

theorem get_rc_exc_subclass_of_base_witness:
  "cache_ok initial_world
   \<and> issubclass (snd (get_rc_exc 2 initial_world)) (fst (get_rc_exc 2 initial_world))
       C_ErrorReturnCode
   \<and> catches (snd (get_rc_exc 2 initial_world)) C_ErrorReturnCode
       (ErrorReturnCode (error_return_code_init (fst (get_rc_exc 2 initial_world))
          (Some ''/bin/ls /nonexistent'') (Some []) (Some ''ls: cannot access'')))"
  using cache_ok_initial
    get_rc_exc_subclass_of_base [OF cache_ok_initial, of 2 "Some ''/bin/ls /nonexistent''"
      "Some []" "Some ''ls: cannot access''"]
  by simp

section \<open>Exit classification in \<^verbatim>\<open>RunningCommand.__init__\<close>\<close>

text \<open>
  Once the process has been waited for, the properties \<^verbatim>\<open>stdout\<close> and \<^verbatim>\<open>stderr\<close>
  are the joined buffers, whether the call was a background call or not.
\<close>

lemma stdout_prop_done:
  "done_prop r = Inr True \<Longrightarrow>
     stdout_prop r w = (joined (r_stdout r), r, w) \<and> stderr_prop r w = (joined (r_stderr r), r, w)"
  by (simp add: stdout_prop_def stderr_prop_def wait_def)

text \<open>The blocking part of \<^verbatim>\<open>__init__\<close> for a call that is neither background nor with.\<close>

lemma running_block_result:
  assumes "\<not> truthy (ca_bg (r_call_args r))" "\<not> truthy (ca_with (r_call_args r))"
    and "process r = Some p"
  shows "running_block r w =
     (if 0 < p_exit p then
        (Inl (ErrorReturnCode (error_return_code_init (fst (get_rc_exc (p_exit p) w))
           (Some (command_ran r))
           (Some (or_empty (fst (fst (communicate p)))))
           (Some (or_empty (snd (fst (communicate p))))))),
         snd (get_rc_exc (p_exit p) w))
      else
        (Inr (r\<lparr>r_stdout := AggList [or_empty (fst (fst (communicate p)))],
                r_stderr := AggList [or_empty (snd (fst (communicate p)))],
                process := Some (p\<lparr>returncode := Some (p_exit p)\<rparr>)\<rparr>), w))"
  using assms
  by (simp add: running_block_def communicate_def proc_wait_def stdout_prop_def stderr_prop_def
      instantiate_def Let_def split: prod.splits)

lemma running_init_no_callbacks:
  "\<not> truthy stdout_callback \<Longrightarrow> \<not> truthy stderr_callback \<Longrightarrow>
   running_init cmd proc ca stdin stdout_callback stderr_callback w =
     running_block \<lparr>command_ran = cmd, process = proc, r_stdout = AggList [],
        r_stderr = AggList [], r_call_args = ca, is_collecting_streams = False,
        threads_started = False\<rparr> w"
  by (simp add: running_init_def Let_def)

text \<open>
  C1, as the code has it. For an invocation that is neither background nor
  with-context and has no stream callbacks (so \<^verbatim>\<open>__init__\<close> itself runs the process to
  its end), in a module state whose cache has no integer key: a status of 0 or below
  never raises, and a positive exit code N raises an exception that
  \<^verbatim>\<open>except ErrorReturnCode\<close> catches and whose class is named for N.
\<close>

theorem exit_classification:
  assumes "\<not> truthy (ca_bg ca)" and "\<not> truthy (ca_with ca)"
    and "\<not> truthy stdout_callback" and "\<not> truthy stderr_callback"
    and "string_keyed w"
  shows "(p_exit p \<le> 0 \<longrightarrow>
            \<not> isl (fst (running_init cmd (Some p) ca stdin stdout_callback stderr_callback w)))
       \<and> (0 < p_exit p \<longrightarrow>
            (\<exists>e. fst (running_init cmd (Some p) ca stdin stdout_callback stderr_callback w) = Inl e
               \<and> catches (snd (running_init cmd (Some p) ca stdin stdout_callback stderr_callback w))
                    C_ErrorReturnCode e
               \<and> failure_code (snd (running_init cmd (Some p) ca stdin stdout_callback stderr_callback w)) e
                  = Some (p_exit p)))"
proof -
  let ?r = "\<lparr>command_ran = cmd, process = Some p, r_stdout = AggList [],
        r_stderr = AggList [], r_call_args = ca, is_collecting_streams = False,
        threads_started = False\<rparr>"
  have init: "running_init cmd (Some p) ca stdin stdout_callback stderr_callback w = running_block ?r w"
    using assms(3,4) by (rule running_init_no_callbacks)
  have block: "running_block ?r w =
     (if 0 < p_exit p then
        (Inl (ErrorReturnCode (error_return_code_init (fst (get_rc_exc (p_exit p) w))
           (Some (command_ran ?r))
           (Some (or_empty (fst (fst (communicate p)))))
           (Some (or_empty (snd (fst (communicate p))))))),
         snd (get_rc_exc (p_exit p) w))
      else
        (Inr (?r\<lparr>r_stdout := AggList [or_empty (fst (fst (communicate p)))],
                r_stderr := AggList [or_empty (snd (fst (communicate p)))],
                process := Some (p\<lparr>returncode := Some (p_exit p)\<rparr>)\<rparr>), w))"
    using assms(1,2) by (intro running_block_result) simp_all
  show ?thesis
  proof (cases "0 < p_exit p")
    case True
    have "failure_code (snd (get_rc_exc (p_exit p) w))
            (ErrorReturnCode (error_return_code_init (fst (get_rc_exc (p_exit p) w)) a b c))
          = Some (p_exit p)" for a b c
      using True assms(5) rc_of_name_roundtrip [of "p_exit p"]
      by (simp add: failure_code_def error_return_code_init_def get_rc_exc_name)
    moreover have "catches (snd (get_rc_exc (p_exit p) w)) C_ErrorReturnCode
            (ErrorReturnCode (error_return_code_init (fst (get_rc_exc (p_exit p) w)) a b c))" for a b c
      using assms(5)
      by (simp add: get_rc_exc_miss catches_def issubclass_def error_return_code_init_def)
    ultimately show ?thesis using True by (simp add: init block)
  next
    case False
    then show ?thesis by (simp add: init block)
  qed
qed

text \<open>
  C1 as stated fails for a nonzero status that is not positive: a process that a
  signal ended has status -15, and \<^verbatim>\<open>__init__\<close> returns without raising, since the
  test is \<^verbatim>\<open>rc > 0\<close>.
\<close>

theorem nonzero_status_without_raise:
  "p_exit killed_process \<noteq> 0
   \<and> \<not> isl (fst (running_init ''/bin/sleep 100'' (Some killed_process) default_call_args None
          PNone PNone initial_world))"
  by (simp add: killed_process_def running_init_no_callbacks running_block_result default_call_args_def)

theorem exit_classification_witness:
  "\<not> truthy (ca_bg default_call_args) \<and> \<not> truthy (ca_with default_call_args)
   \<and> \<not> truthy PNone \<and> string_keyed initial_world
   \<and> (\<exists>e. fst (running_init ''/bin/ls /nonexistent'' (Some exit2_process) default_call_args None
               PNone PNone initial_world) = Inl e
        \<and> failure_code (snd (running_init ''/bin/ls /nonexistent'' (Some exit2_process)
               default_call_args None PNone PNone initial_world)) e = Some 2)"
proof -
  have h: "\<not> truthy (ca_bg default_call_args)" "\<not> truthy (ca_with default_call_args)" "\<not> truthy PNone"
    by (simp_all add: default_call_args_def)
  have e: "p_exit exit2_process = 2" by (simp add: exit2_process_def)
  from exit_classification [OF h(1) h(2) h(3) h(3) string_keyed_initial, of exit2_process
      "''/bin/ls /nonexistent''" None]
  show ?thesis using h string_keyed_initial by (auto simp: e)
qed


section \<open>Unfolding the model on concrete inputs\<close>

lemmas eval_defs =
  call_def call_cmd_def extract_call_args_def override_def special_keys_def
  default_call_args_def compile_args_def shlex_split_def keyword_def
  one_command_def three_commands_def new_command_def initial_world_def update_command_def
  popen_def os_exit_def wire_def running_init_def running_block_def done_prop_def
  communicate_def proc_wait_def stdout_prop_def stderr_prop_def instantiate_def
  running_enter_def running_exit_def bake_def
  sh_whitespace_def sh_quotes_def sh_escape_def sh_escapedquotes_def Let_def

lemmas thread_defs =
  run_threads_def collectors_start_def thread_step_def phase_of_def set_phase_def drain_def
  finally_block_def is_last_thread_def is_alive_def get_rc_exc_def type_new_def wait_def

section \<open>The explicit wait of a background invocation\<close>

text \<open>
  For a handle without collector threads whose process has not been waited for and
  exits with a positive status, \<^verbatim>\<open>wait\<close> ends in \<^verbatim>\<open>TypeError\<close>: either
  \<^verbatim>\<open>"".join(None)\<close> fails for a stream that is not a pipe, or the exception class is
  called with two arguments.
\<close>

lemma wait_positive_status:
  assumes "process r = Some p" "returncode p = None" "\<not> is_collecting_streams r" "0 < p_exit p"
  shows "fst (wait r w) = Inl TypeError"
  using assms
  by (cases "p_stdout p = OutPipe"; cases "p_stderr p = OutPipe")
     (simp_all add: wait_def done_prop_def communicate_def proc_wait_def instantiate_def Let_def
       split: prod.splits)

text \<open>
  C4. The specification says that the explicit wait of a background invocation without
  collectors raises, on a nonzero exit, a classified failure that carries the command
  line and both streams. On the code, the background call of \<^verbatim>\<open>/bin/false\<close> (exit
  code 1) returns a handle, and \<^verbatim>\<open>wait()\<close> on that handle raises \<^verbatim>\<open>TypeError\<close>:
  the \<^verbatim>\<open>raise\<close> in \<^verbatim>\<open>wait\<close> calls the exception class with \<^verbatim>\<open>(self.stdout,
  self.stderr)\<close> and leaves out \<^verbatim>\<open>self.command_ran\<close>, which the two other
  \<^verbatim>\<open>raise\<close> statements of the module pass.
\<close>

theorem wait_raises_type_error:
  "(case call (os_exit 1) 0 None [] [(''_bg'', PBool True)] (one_command ''/bin/false'') of
      (Inr r, w) \<Rightarrow> fst (wait r w) = Inl TypeError
    | (Inl e, w) \<Rightarrow> False)"
  by (simp add: eval_defs wait_def get_rc_exc_def type_new_def)

section \<open>String conversion of a handle without a process\<close>

text \<open>
  C9. The specification says that string conversion gives the empty string when the handle has
  no process. On the code, \<^verbatim>\<open>__unicode__\<close> has no \<^verbatim>\<open>return\<close> for that case and
  returns \<^verbatim>\<open>None\<close>, so \<^verbatim>\<open>__str__\<close> raises \<^verbatim>\<open>TypeError\<close>: for every handle whose
  process is \<^verbatim>\<open>None\<close>, and in particular for the placeholder that a call with
  \<^verbatim>\<open>_with=True\<close> returns.
\<close>

theorem str_of_placeholder:
  "fst (unicode_method decode (r\<lparr>process := None\<rparr>) w) = Inr UNone
   \<and> fst (str_method decode encode (r\<lparr>process := None\<rparr>) w) = Inl TypeError
   \<and> (case call os 0 None [] [(''_with'', PBool True)] (one_command ''/usr/bin/sudo'') of
         (Inr h, w') \<Rightarrow> process h = None \<and> fst (str_method decode encode h w') = Inl TypeError
       | (Inl e, w') \<Rightarrow> False)"
  by (simp add: unicode_method_def str_method_def eval_defs)

section \<open>Baking\<close>



text \<open>
  The expression \<^verbatim>\<open>cmd.bake(...)\<close> runs the body of \<^verbatim>\<open>bake\<close> on a command that is
  not baked, and calls the command with the first argument \<^verbatim>\<open>bake\<close> on a baked one.
\<close>

lemma dot_bake_unbaked:
  "\<not> partial (commands w ! self) \<Longrightarrow>
   dot_bake os self args kwargs w =
     (case bake self args kwargs w of
        (Inl e, w') \<Rightarrow> (Inl e, w')
      | (Inr fn, w') \<Rightarrow> (Inr (NewCommand fn), w'))"
  by (simp add: dot_bake_def getattribute_def public_attributes_def)

lemma dot_bake_baked:
  "partial (commands w ! self) \<Longrightarrow>
   dot_bake os self args kwargs w =
     (case call os self None (PStr ''bake'' # args) kwargs w of
        (Inl e, w') \<Rightarrow> (Inl e, w')
      | (Inr r, w') \<Rightarrow> (Inr (Invocation r), w'))"
  by (simp add: dot_bake_def getattribute_def public_attributes_def baked_command_call_def)







text \<open>
  The body of \<^verbatim>\<open>bake\<close>, run on a baked command directly as
  \<^verbatim>\<open>Command.bake(parent, "-a")\<close>, takes only the path from the parent.
\<close>

lemma bake_body_on_baked_command:
  "(case bake 0 [PStr ''-l''] [(''_bg'', PBool True)] (one_command ''/bin/ls'') of
      (Inr parent, w1) \<Rightarrow>
        (case bake parent [PStr ''-a''] [] w1 of
           (Inr child, w2) \<Rightarrow>
             partial_baked_args (commands w1 ! parent) = [''-l'']
             \<and> map_option ca_bg (partial_call_args (commands w1 ! parent)) = Some (PBool True)
             \<and> partial_baked_args (commands w2 ! child) = [''-a'']
             \<and> map_option ca_bg (partial_call_args (commands w2 ! child)) = Some (PBool False)
             \<and> commands w2 ! parent = commands w1 ! parent
         | (Inl e, w2) \<Rightarrow> False)
    | (Inl e, w1) \<Rightarrow> False)"
  by (simp add: eval_defs)

section \<open>Baking, then calling\<close>

lemma extract_call_args_empty:
  "extract_call_args [] t = ((case t of None \<Rightarrow> default_call_args | Some ca \<Rightarrow> ca), [])"
  by (cases t) (simp_all add: extract_call_args_def override_def default_call_args_def)

lemma bake_plain:
  assumes "list_all plain_word ws"
  shows "bake self (map PStr ws) [] w =
     (Inr (length (commands w)),
      w\<lparr>commands := commands w @
          [\<lparr>path = path (commands w ! self), partial = True, partial_baked_args = ws,
            partial_call_args = Some default_call_args\<rparr>]\<rparr>)"
  using compile_args_plain [OF assms]
  by (simp add: bake_def new_command_def update_command_def extract_call_args_empty Let_def)

lemma call_cmd_plain:
  assumes "list_all plain_word ws"
  shows "call_cmd self None (map PStr ws) [] w =
     Inr \<lparr>pl_cmd = concat (prepend_stack w) @ [path (commands w ! self)]
                    @ partial_baked_args (commands w ! self) @ ws,
          pl_command_ran = join '' '' (concat (prepend_stack w) @ [path (commands w ! self)]
                    @ partial_baked_args (commands w ! self) @ ws),
          pl_call_args = (case partial_call_args (commands w ! self) of
                            None \<Rightarrow> default_call_args | Some ca \<Rightarrow> ca),
          pl_stdin = (if truthy (ca_fg (case partial_call_args (commands w ! self) of
                            None \<Rightarrow> default_call_args | Some ca \<Rightarrow> ca))
                      then StdinInherit else StdinPipe),
          pl_actual_stdin = None\<rparr>"
  using compile_args_plain [OF assms]
  by (simp add: call_cmd_def extract_call_args_empty Let_def)

text \<open>
  C7, as the code has it. For a command that is not itself baked and arguments \<open>a\<close>,
  \<open>b\<close>, \<open>c\<close> that are plain words: \<^verbatim>\<open>cmd.bake(a, b)\<close> gives a new command, and
  calling that command with \<open>[c]\<close> under any prefix stack \<open>stk\<close> computes the
  argument vector \<open>stk\<close> (flattened), then the path, then \<open>a\<close>, \<open>b\<close>, \<open>c\<close>; the
  call starts the process with exactly that vector.
\<close>

theorem bake_then_call:
  assumes "\<not> partial (commands w ! self)"
    and "plain_word a" and "plain_word b" and "plain_word c"
  shows "fst (dot_bake os self [PStr a, PStr b] [] w) = Inr (NewCommand (length (commands w)))
     \<and> map_sum id pl_cmd
         (call_cmd (length (commands w)) None [PStr c] []
            ((snd (dot_bake os self [PStr a, PStr b] [] w))\<lparr>prepend_stack := stk\<rparr>))
       = Inr (concat stk @ [path (commands w ! self)] @ [a, b, c])
     \<and> call os (length (commands w)) None [PStr c] []
            ((snd (dot_bake os self [PStr a, PStr b] [] w))\<lparr>prepend_stack := stk\<rparr>)
       = (case popen os (concat stk @ [path (commands w ! self)] @ [a, b, c])
                 StdinPipe OutPipe OutPipe of
            Inl e \<Rightarrow> (Inl e, (snd (dot_bake os self [PStr a, PStr b] [] w))\<lparr>prepend_stack := stk\<rparr>)
          | Inr p \<Rightarrow>
              running_init (join '' '' (concat stk @ [path (commands w ! self)] @ [a, b, c]))
                (Some p) default_call_args None PNone PNone
                ((snd (dot_bake os self [PStr a, PStr b] [] w))\<lparr>prepend_stack := stk\<rparr>))"
proof -
  have ab: "list_all plain_word [a, b]" and c: "list_all plain_word [c]"
    using assms(2-4) by simp_all
  have bk: "bake self [PStr a, PStr b] [] w =
     (Inr (length (commands w)),
      w\<lparr>commands := commands w @
          [\<lparr>path = path (commands w ! self), partial = True, partial_baked_args = [a, b],
            partial_call_args = Some default_call_args\<rparr>]\<rparr>)"
    using bake_plain [OF ab, of self w] by simp
  have db: "dot_bake os self [PStr a, PStr b] [] w =
     (Inr (NewCommand (length (commands w))),
      w\<lparr>commands := commands w @
          [\<lparr>path = path (commands w ! self), partial = True, partial_baked_args = [a, b],
            partial_call_args = Some default_call_args\<rparr>]\<rparr>)"
    using assms(1) by (simp add: dot_bake_unbaked bk)
  let ?w1 = "(snd (dot_bake os self [PStr a, PStr b] [] w))\<lparr>prepend_stack := stk\<rparr>"
  have cc: "call_cmd (length (commands w)) None [PStr c] [] ?w1 =
     Inr \<lparr>pl_cmd = concat stk @ [path (commands w ! self)] @ [a, b, c],
          pl_command_ran = join '' '' (concat stk @ [path (commands w ! self)] @ [a, b, c]),
          pl_call_args = default_call_args, pl_stdin = StdinPipe, pl_actual_stdin = None\<rparr>"
    using call_cmd_plain [OF c, of "length (commands w)" ?w1]
    by (simp add: db default_call_args_def)
  have cl: "call os (length (commands w)) None [PStr c] [] ?w1
       = (case popen os (concat stk @ [path (commands w ! self)] @ [a, b, c])
                 StdinPipe OutPipe OutPipe of
            Inl e \<Rightarrow> (Inl e, ?w1)
          | Inr p \<Rightarrow>
              running_init (join '' '' (concat stk @ [path (commands w ! self)] @ [a, b, c]))
                (Some p) default_call_args None PNone PNone ?w1)"
    unfolding call_def cc
    by (simp add: default_call_args_def wire_def Let_def split: sum.splits)
  show ?thesis
    using cl by (simp add: db [THEN arg_cong, of fst] cc)
qed

text \<open>
  C7 as stated fails for an argument that is not a plain word: the baked arguments are
  joined with spaces and split again as shell words, so \<^verbatim>\<open>"x y"\<close> becomes the two
  arguments \<^verbatim>\<open>x\<close> and \<^verbatim>\<open>y\<close>.
\<close>

theorem bake_resplits_arguments:
  "(case dot_bake (os_exit 0) 0 [PStr ''x y'', PStr ''b''] [] (one_command ''/bin/ls'') of
      (Inr (NewCommand fn), w1) \<Rightarrow>
        (case call_cmd fn None [PStr ''c''] [] w1 of
           Inr pl \<Rightarrow> pl_cmd pl = [''/bin/ls'', ''x'', ''y'', ''b'', ''c'']
                   \<and> pl_cmd pl \<noteq> concat (prepend_stack w1) @ [''/bin/ls''] @ [''x y'', ''b'', ''c'']
         | Inl e \<Rightarrow> False)
    | (Inr (Invocation r), w1) \<Rightarrow> False
    | (Inl e, w1) \<Rightarrow> False)"
  by (simp add: dot_bake_def getattribute_def public_attributes_def eval_defs)

theorem bake_then_call_witness:
  "\<not> partial (commands (one_command ''/bin/ls'') ! 0)
   \<and> plain_word ''-l'' \<and> plain_word ''-a'' \<and> plain_word ''/tmp''
   \<and> map_sum id pl_cmd
         (call_cmd (length (commands (one_command ''/bin/ls''))) None [PStr ''/tmp''] []
            ((snd (dot_bake (os_exit 0) 0 [PStr ''-l'', PStr ''-a''] [] (one_command ''/bin/ls'')))
               \<lparr>prepend_stack := [[''/usr/bin/sudo'']]\<rparr>))
       = Inr [''/usr/bin/sudo'', ''/bin/ls'', ''-l'', ''-a'', ''/tmp'']"
proof -
  have u: "\<not> partial (commands (one_command ''/bin/ls'') ! 0)"
    by (simp add: one_command_def new_command_def initial_world_def)
  have p: "plain_word ''-l''" "plain_word ''-a''" "plain_word ''/tmp''"
    by (simp_all add: plain_word_def plain_char_def sh_whitespace_def sh_quotes_def sh_escape_def)
  have q: "path (commands (one_command ''/bin/ls'') ! 0) = ''/bin/ls''"
    by (simp add: one_command_def new_command_def initial_world_def)
  from bake_then_call [OF u p, of "os_exit 0" "[[''/usr/bin/sudo'']]"]
  show ?thesis using u p by (simp add: q)
qed


section \<open>The prefix stack\<close>

text \<open>
  Contexts entered with \<^verbatim>\<open>with cmd:\<close> (\<^verbatim>\<open>Command.__enter__\<close> and
  \<^verbatim>\<open>Command.__exit__\<close>) nest as the claim says: each pushes its path, and the exit
  undoes the entry.
\<close>

lemma command_exit_enter: "command_exit (command_enter c w) = Some w"
  by (simp add: command_exit_def command_enter_def)

lemma command_enter_nesting:
  "map_sum id pl_cmd (call_cmd self None [] [] (command_enter c2 (command_enter c1 w)))
     = Inr (concat (prepend_stack w) @ [path (commands w ! c1), path (commands w ! c2)]
            @ [path (commands w ! self)] @ partial_baked_args (commands w ! self))"
  by (simp add: call_cmd_def command_enter_def extract_call_args_def compile_args_def
      shlex_split_def Let_def)


text \<open>
  C8. The specification says that inside the contexts C1 and then C2 an invocation has the
  arguments of C1, then those of C2, then its own path. On the code, with the contexts
  entered as \<^verbatim>\<open>with sudo(_with=True):\<close> and \<^verbatim>\<open>with env(_with=True):\<close>, the second
  call pushes a vector that already begins with the prefix of the first, and the
  invocation of \<^verbatim>\<open>ls\<close> inside has the vector \<^verbatim>\<open>sudo sudo env ls\<close>: the prefix of
  C1 stands twice. After both exits the stack is empty.
\<close>

theorem nested_with_duplicates_prefix:
  "(case call (os_exit 0) 0 None [] [(''_with'', PBool True)] three_commands of
      (Inr c1, w1) \<Rightarrow>
        (case call (os_exit 0) 1 None [] [(''_with'', PBool True)] (running_enter c1 w1) of
           (Inr c2, w2) \<Rightarrow>
             (case call_cmd 2 None [] [] (running_enter c2 w2) of
                Inr pl \<Rightarrow>
                  pl_cmd pl = [''/usr/bin/sudo'', ''/usr/bin/sudo'', ''/usr/bin/env'', ''/bin/ls'']
                  \<and> prepend_stack (running_exit c1 (running_exit c2 w2)) = []
              | Inl e \<Rightarrow> False)
         | (Inl e, w2) \<Rightarrow> False)
    | (Inl e, w1) \<Rightarrow> False)"
  by (simp add: eval_defs)

section \<open>The exit check of the collector threads\<close>

lemma drain_keeps:
  "stdout_phase (snd (drain t s)) = stdout_phase s
   \<and> stderr_phase (snd (drain t s)) = stderr_phase s
   \<and> exit_checks (snd (drain t s)) = exit_checks s
   \<and> raised (snd (drain t s)) = raised s"
  by (simp add: drain_def Let_def split: option.splits sum.splits tid.splits)

lemma finally_block_not_last:
  "stdout_phase s \<noteq> Stopped \<Longrightarrow> stderr_phase s \<noteq> Stopped \<Longrightarrow> finally_block s = (None, s)"
  by (simp add: finally_block_def is_last_thread_def is_alive_def)

lemma finally_block_phases:
  "stdout_phase (snd (finally_block s)) = stdout_phase s
   \<and> stderr_phase (snd (finally_block s)) = stderr_phase s
   \<and> exit_checks (snd (finally_block s)) \<le> exit_checks s + 1
   \<and> (exit_checks (snd (finally_block s)) \<noteq> exit_checks s
        \<longrightarrow> stdout_phase s = Stopped \<or> stderr_phase s = Stopped)"
  by (simp add: finally_block_def is_last_thread_def is_alive_def Let_def
      split: option.splits sum.splits prod.splits)

text \<open>A thread that leaves its read loop while the other thread is alive checks nothing.\<close>

lemma thread_step_both_alive:
  assumes "phase_of t s = Reading" "stdout_phase s \<noteq> Stopped" "stderr_phase s \<noteq> Stopped"
  shows "exit_checks (thread_step t s) = exit_checks s
     \<and> phase_of t (thread_step t s) = Returned
     \<and> stdout_phase (thread_step t s) = (if t = StdoutThread then Returned else stdout_phase s)
     \<and> stderr_phase (thread_step t s) = (if t = StderrThread then Returned else stderr_phase s)"
proof -
  obtain e1 s1 where d: "drain t s = (e1, s1)" by (cases "drain t s")
  from drain_keeps [of t s] d have k: "stdout_phase s1 = stdout_phase s"
    "stderr_phase s1 = stderr_phase s" "exit_checks s1 = exit_checks s" by simp_all
  have f: "finally_block s1 = (None, s1)"
    using assms(2,3) k by (intro finally_block_not_last) simp_all
  have st: "thread_step t s = set_phase t Returned (s1\<lparr>raised := raised s1 @
      (case e1 of Some e \<Rightarrow> [e] | None \<Rightarrow> [])\<rparr>)"
    using assms(1) by (simp add: thread_step_def d f)
  show ?thesis
    using k st by (cases t) (simp_all add: phase_of_def set_phase_def)
qed

lemma thread_step_returned:
  "phase_of t s = Returned \<Longrightarrow> thread_step t s = set_phase t Stopped s"
  by (simp add: thread_step_def)

text \<open>
  C3. The specification says that the exit check runs exactly once whichever collector finishes
  first. On the code, when both threads leave their read loops before either thread
  has ended, each finds the other alive, \<^verbatim>\<open>is_last_thread()\<close> is false in both, and
  no thread waits for the process: under the schedule stdout, stderr, stdout, stderr
  both threads end and the number of exit checks is 0, for every handle.
\<close>

theorem both_collectors_skip_exit_check:
  "exit_checks (run_threads [StdoutThread, StderrThread, StdoutThread, StderrThread]
      (collectors_start r w)) = 0
   \<and> stdout_phase (run_threads [StdoutThread, StderrThread, StdoutThread, StderrThread]
      (collectors_start r w)) = Stopped
   \<and> stderr_phase (run_threads [StdoutThread, StderrThread, StdoutThread, StderrThread]
      (collectors_start r w)) = Stopped"
proof -
  let ?s0 = "collectors_start r w"
  let ?s1 = "thread_step StdoutThread ?s0"
  let ?s2 = "thread_step StderrThread ?s1"
  let ?s3 = "thread_step StdoutThread ?s2"
  let ?s4 = "thread_step StderrThread ?s3"
  have s0: "stdout_phase ?s0 = Reading" "stderr_phase ?s0 = Reading" "exit_checks ?s0 = 0"
    by (simp_all add: collectors_start_def)
  have s1: "stdout_phase ?s1 = Returned" "stderr_phase ?s1 = Reading" "exit_checks ?s1 = 0"
    using thread_step_both_alive [of StdoutThread ?s0] s0 by (simp_all add: phase_of_def)
  have s2: "stdout_phase ?s2 = Returned" "stderr_phase ?s2 = Returned" "exit_checks ?s2 = 0"
    using thread_step_both_alive [of StderrThread ?s1] s1 by (simp_all add: phase_of_def)
  have s3: "stdout_phase ?s3 = Stopped" "stderr_phase ?s3 = Returned" "exit_checks ?s3 = 0"
    using s2 by (simp_all add: thread_step_returned phase_of_def set_phase_def)
  have s4: "stdout_phase ?s4 = Stopped" "stderr_phase ?s4 = Stopped" "exit_checks ?s4 = 0"
    using s3 by (simp_all add: thread_step_returned phase_of_def set_phase_def)
  show ?thesis using s4 by (simp add: run_threads_def)
qed

text \<open>
  What does hold: the check never runs twice, under any schedule; and for a process
  that exits with code 1, the schedule above raises nothing and a later \<^verbatim>\<open>wait()\<close>
  only joins the threads, while a schedule in which the first thread has ended before
  the second leaves its loop checks once and raises the failure of code 1.
\<close>

lemma thread_step_checked_once:
  assumes "checked_once s"
  shows "checked_once (thread_step t s)"
proof (cases "phase_of t s")
  case Reading
  obtain e1 s1 where d: "drain t s = (e1, s1)" by (cases "drain t s")
  obtain e2 s2 where f: "finally_block s1 = (e2, s2)" by (cases "finally_block s1")
  from drain_keeps [of t s] d have k: "stdout_phase s1 = stdout_phase s"
    "stderr_phase s1 = stderr_phase s" "exit_checks s1 = exit_checks s" by simp_all
  from finally_block_phases [of s1] f have g: "stdout_phase s2 = stdout_phase s1"
    "stderr_phase s2 = stderr_phase s1" "exit_checks s2 \<le> exit_checks s1 + 1"
    "exit_checks s2 \<noteq> exit_checks s1 \<longrightarrow> stdout_phase s1 = Stopped \<or> stderr_phase s1 = Stopped"
    by simp_all
  from Reading assms have z: "exit_checks s = 0"
    by (cases t) (auto simp: checked_once_def phase_of_def)
  have st: "thread_step t s = set_phase t Returned (s2\<lparr>raised := raised s2 @
      (case e2 of Some e \<Rightarrow> [e] | None \<Rightarrow> (case e1 of Some e \<Rightarrow> [e] | None \<Rightarrow> []))\<rparr>)"
    using Reading by (simp add: thread_step_def d f)
  show ?thesis
  proof (cases "exit_checks s2 = 0")
    case True
    then show ?thesis using st by (cases t) (simp_all add: checked_once_def set_phase_def)
  next
    case False
    with g z k have one: "exit_checks s2 = 1" by simp
    from False g z k have "stdout_phase s = Stopped \<or> stderr_phase s = Stopped" by simp
    with Reading have "(t = StdoutThread \<and> stderr_phase s = Stopped)
        \<or> (t = StderrThread \<and> stdout_phase s = Stopped)"
      by (cases t) (auto simp: phase_of_def)
    then show ?thesis using one g k st
      by (auto simp: checked_once_def set_phase_def)
  qed
next
  case Returned
  then show ?thesis using assms
    by (cases t) (auto simp: thread_step_def set_phase_def checked_once_def phase_of_def)
next
  case Stopped
  then show ?thesis using assms by (simp add: thread_step_def)
qed

lemma run_threads_checked_once:
  "checked_once s \<Longrightarrow> checked_once (run_threads schedule s)"
  unfolding run_threads_def
  by (induction schedule arbitrary: s) (simp_all add: thread_step_checked_once)

lemma exit_checks_at_most_once:
  "exit_checks (run_threads schedule (collectors_start r w)) \<le> 1"
proof -
  have "checked_once (collectors_start r w)"
    by (simp add: checked_once_def collectors_start_def)
  then have "checked_once (run_threads schedule (collectors_start r w))"
    by (rule run_threads_checked_once)
  then show ?thesis by (auto simp: checked_once_def)
qed



lemma collectors_race_concrete:
  "(case call (os_exit 1) 0 None [] [(''_out'', PCallable ''f'')] (one_command ''/bin/false'') of
      (Inr r, w) \<Rightarrow>
        threads_started r
        \<and> exit_checks (run_threads [StdoutThread, StderrThread, StdoutThread, StderrThread]
             (collectors_start r w)) = 0
        \<and> raised (run_threads [StdoutThread, StderrThread, StdoutThread, StderrThread]
             (collectors_start r w)) = []
        \<and> fst (wait r w) = Inr RetNone
    | (Inl e, w) \<Rightarrow> False)"
  by (simp add: eval_defs thread_defs)

lemma collectors_sequential_concrete:
  "(case call (os_exit 1) 0 None [] [(''_out'', PCallable ''f'')] (one_command ''/bin/false'') of
      (Inr r, w) \<Rightarrow>
        exit_checks (run_threads [StdoutThread, StdoutThread, StderrThread, StderrThread]
             (collectors_start r w)) = 1
        \<and> map (failure_code (c_world (run_threads [StdoutThread, StdoutThread, StderrThread, StderrThread]
             (collectors_start r w))))
            (raised (run_threads [StdoutThread, StdoutThread, StderrThread, StderrThread]
             (collectors_start r w))) = [Some 1]
    | (Inl e, w) \<Rightarrow> False)"
  by (simp add: eval_defs thread_defs failure_code_def rc_of_name_def str_of_int_def
      error_return_code_init_def
      str_of_nat.simps digit_char_def is_digit_def nat_of_digits_def digit_val_def)


end
